theory Spec2Isabelle
  imports Main
begin

section \<open>Request bodies\<close>

text \<open>
  Every handler of \<^verbatim>\<open>main.py\<close> that reads a body takes \<^verbatim>\<open>body: dict\<close>, the decoded
  JSON object of the request. A field of it is any JSON value; the numbers modelled are
  the integers.
\<close>

datatype jval =
    JNull
  | JBool bool
  | JInt int
  | JStr string
  | JList "jval list"
  | JDict "(string \<times> jval) list"

type_synonym body = "string \<rightharpoonup> jval"

text \<open>\<^verbatim>\<open>body.get(k)\<close>: the value stored at \<open>k\<close>, Python's \<^verbatim>\<open>None\<close> when the key is missing.\<close>

definition get :: "body \<Rightarrow> string \<Rightarrow> jval" where
  "get b k = (case b k of None \<Rightarrow> JNull | Some v \<Rightarrow> v)"

text \<open>Python's truth value of an object, which \<^verbatim>\<open>not body.get(k)\<close> negates.\<close>

fun truthy :: "jval \<Rightarrow> bool" where
  "truthy JNull = False"
| "truthy (JBool b) = b"
| "truthy (JInt n) = (n \<noteq> 0)"
| "truthy (JStr s) = (s \<noteq> [])"
| "truthy (JList xs) = (xs \<noteq> [])"
| "truthy (JDict kvs) = (kvs \<noteq> [])"

section \<open>Storage engine\<close>

text \<open>
  The three tables of \<^verbatim>\<open>init_db\<close>. Every text column has TEXT affinity; the two
  counters are INTEGER columns. A table is the list of its rows in insertion order.
  A record is polymorphic in the type of its \<^verbatim>\<open>username\<close> and \<^verbatim>\<open>content\<close>: a stored
  row holds text, the dictionary that \<^verbatim>\<open>create_post\<close> and \<^verbatim>\<open>create_comment\<close> return holds
  the values of the body as they came.
\<close>

record 'v post =
  post_id :: string
  post_username :: 'v
  post_content :: 'v
  post_createdAt :: string
  post_updatedAt :: string
  post_likes :: int
  post_comments :: int

record 'v comment =
  comment_id :: string
  comment_postId :: string
  comment_username :: 'v
  comment_content :: 'v
  comment_createdAt :: string
  comment_updatedAt :: string

record like =
  like_postId :: string
  like_username :: string

record store =
  posts :: "string post list"
  comments :: "string comment list"
  likes :: "like list"

definition init_db :: store where
  "init_db = \<lparr>posts = [], comments = [], likes = []\<rparr>"

text \<open>Decimal rendering of an integer, as SQLite converts it for a TEXT column.\<close>

fun digits :: "nat \<Rightarrow> string" where
  "digits n =
     (if n < 10 then [char_of (48 + n)]
      else digits (n div 10) @ [char_of (48 + n mod 10)])"

declare digits.simps [simp del]

definition str_of_int :: "int \<Rightarrow> string" where
  "str_of_int i = (if i < 0 then CHR ''-'' # digits (nat (- i)) else digits (nat i))"

text \<open>
  Binding a Python value to a \<^verbatim>\<open>?\<close> that is stored in, or compared with, a TEXT column.
  A string is taken as it is; an integer that fits 64 bits (and a boolean, an integer
  to the driver) is converted to its decimal text; the driver refuses everything else
  with an exception that no handler catches (\<open>None\<close>). \<^verbatim>\<open>None\<close> itself never reaches a
  statement: each handler has rejected it before.
\<close>

fun sql_text :: "jval \<Rightarrow> string option" where
  "sql_text (JStr s) = Some s"
| "sql_text (JInt n) =
     (if - (2 ^ 63) \<le> n \<and> n < 2 ^ 63 then Some (str_of_int n) else None)"
| "sql_text (JBool b) = Some (if b then ''1'' else ''0'')"
| "sql_text JNull = None"
| "sql_text (JList xs) = None"
| "sql_text (JDict kvs) = None"

text \<open>\<^verbatim>\<open>SELECT * FROM posts WHERE id = ?\<close> followed by \<^verbatim>\<open>fetchone()\<close>.\<close>

definition select_post :: "store \<Rightarrow> string \<Rightarrow> string post option" where
  "select_post s pid = find (\<lambda>p. post_id p = pid) (posts s)"

text \<open>\<^verbatim>\<open>SELECT * FROM comments WHERE id = ? AND postId = ?\<close> followed by \<^verbatim>\<open>fetchone()\<close>.\<close>

definition select_comment :: "store \<Rightarrow> string \<Rightarrow> string \<Rightarrow> string comment option" where
  "select_comment s cid pid =
     find (\<lambda>c. comment_id c = cid \<and> comment_postId c = pid) (comments s)"

text \<open>\<^verbatim>\<open>SELECT * FROM likes WHERE postId = ? AND username = ?\<close> followed by \<^verbatim>\<open>fetchone()\<close>.\<close>

definition select_like :: "store \<Rightarrow> string \<Rightarrow> string \<Rightarrow> like option" where
  "select_like s pid u =
     find (\<lambda>l. like_postId l = pid \<and> like_username l = u) (likes s)"

text \<open>
  The three INSERT statements. Each table has a primary key, and an insert that
  repeats a key raises \<^verbatim>\<open>IntegrityError\<close> (\<open>None\<close>) and inserts nothing.
\<close>

definition insert_post :: "string post \<Rightarrow> store \<Rightarrow> store option" where
  "insert_post row s =
     (if post_id row \<in> set (map post_id (posts s)) then None
      else Some (s\<lparr>posts := posts s @ [row]\<rparr>))"

definition insert_comment :: "string comment \<Rightarrow> store \<Rightarrow> store option" where
  "insert_comment row s =
     (if comment_id row \<in> set (map comment_id (comments s)) then None
      else Some (s\<lparr>comments := comments s @ [row]\<rparr>))"

definition insert_like :: "like \<Rightarrow> store \<Rightarrow> store option" where
  "insert_like row s =
     (if (like_postId row, like_username row)
           \<in> set (map (\<lambda>l. (like_postId l, like_username l)) (likes s)) then None
      else Some (s\<lparr>likes := likes s @ [row]\<rparr>))"

text \<open>\<^verbatim>\<open>UPDATE posts SET username = ?, content = ?, updatedAt = ? WHERE id = ?\<close>\<close>

definition update_post_row :: "string \<Rightarrow> string \<Rightarrow> string \<Rightarrow> string \<Rightarrow> store \<Rightarrow> store" where
  "update_post_row u c now pid s =
     s\<lparr>posts := map (\<lambda>p. if post_id p = pid
                          then p\<lparr>post_username := u, post_content := c, post_updatedAt := now\<rparr>
                          else p) (posts s)\<rparr>"

text \<open>\<^verbatim>\<open>UPDATE comments SET username = ?, content = ?, updatedAt = ? WHERE id = ? AND postId = ?\<close>\<close>

definition update_comment_row ::
  "string \<Rightarrow> string \<Rightarrow> string \<Rightarrow> string \<Rightarrow> string \<Rightarrow> store \<Rightarrow> store" where
  "update_comment_row u c now cid pid s =
     s\<lparr>comments := map (\<lambda>r. if comment_id r = cid \<and> comment_postId r = pid
                             then r\<lparr>comment_username := u, comment_content := c,
                                    comment_updatedAt := now\<rparr>
                             else r) (comments s)\<rparr>"

text \<open>\<^verbatim>\<open>UPDATE posts SET comments = comments + 1 WHERE id = ?\<close>\<close>

definition incr_comments :: "string \<Rightarrow> store \<Rightarrow> store" where
  "incr_comments pid s =
     s\<lparr>posts := map (\<lambda>p. if post_id p = pid then p\<lparr>post_comments := post_comments p + 1\<rparr>
                          else p) (posts s)\<rparr>"

text \<open>\<^verbatim>\<open>UPDATE posts SET comments = comments - 1 WHERE id = ? AND comments > 0\<close>\<close>

definition decr_comments :: "string \<Rightarrow> store \<Rightarrow> store" where
  "decr_comments pid s =
     s\<lparr>posts := map (\<lambda>p. if post_id p = pid \<and> post_comments p > 0
                          then p\<lparr>post_comments := post_comments p - 1\<rparr>
                          else p) (posts s)\<rparr>"

text \<open>\<^verbatim>\<open>UPDATE posts SET likes = likes + 1 WHERE id = ?\<close>\<close>

definition incr_likes :: "string \<Rightarrow> store \<Rightarrow> store" where
  "incr_likes pid s =
     s\<lparr>posts := map (\<lambda>p. if post_id p = pid then p\<lparr>post_likes := post_likes p + 1\<rparr>
                          else p) (posts s)\<rparr>"

text \<open>\<^verbatim>\<open>UPDATE posts SET likes = likes - 1 WHERE id = ? AND likes > 0\<close>\<close>

definition decr_likes :: "string \<Rightarrow> store \<Rightarrow> store" where
  "decr_likes pid s =
     s\<lparr>posts := map (\<lambda>p. if post_id p = pid \<and> post_likes p > 0
                          then p\<lparr>post_likes := post_likes p - 1\<rparr>
                          else p) (posts s)\<rparr>"

text \<open>The DELETE statements, each named by its WHERE clause.\<close>

definition delete_posts_by_id :: "string \<Rightarrow> store \<Rightarrow> store" where
  "delete_posts_by_id pid s = s\<lparr>posts := filter (\<lambda>p. post_id p \<noteq> pid) (posts s)\<rparr>"

definition delete_comments_by_post :: "string \<Rightarrow> store \<Rightarrow> store" where
  "delete_comments_by_post pid s =
     s\<lparr>comments := filter (\<lambda>c. comment_postId c \<noteq> pid) (comments s)\<rparr>"

definition delete_likes_by_post :: "string \<Rightarrow> store \<Rightarrow> store" where
  "delete_likes_by_post pid s = s\<lparr>likes := filter (\<lambda>l. like_postId l \<noteq> pid) (likes s)\<rparr>"

definition delete_comment_row :: "string \<Rightarrow> string \<Rightarrow> store \<Rightarrow> store" where
  "delete_comment_row cid pid s =
     s\<lparr>comments := filter (\<lambda>c. \<not> (comment_id c = cid \<and> comment_postId c = pid)) (comments s)\<rparr>"

definition delete_like_row :: "string \<Rightarrow> string \<Rightarrow> store \<Rightarrow> store" where
  "delete_like_row pid u s =
     s\<lparr>likes := filter (\<lambda>l. \<not> (like_postId l = pid \<and> like_username l = u)) (likes s)\<rparr>"

section \<open>Handlers\<close>

text \<open>
  A handler opens a connection, runs its statements and commits at its end. An
  exception leaves the handler before the commit and the connection is closed with
  the transaction rolled back, so a handler maps the committed store to its answer
  and the next committed store, and every error branch returns the store it was given.
  \<open>InvalidInput\<close> is the answer 400, \<open>NotFound\<close> the answer 404 and \<open>ServerError\<close> an
  exception that no handler catches. A handler that answers with a bare
  \<^verbatim>\<open>Response\<close> returns its status code. The identifier of \<^verbatim>\<open>uuid.uuid4()\<close> and the
  time stamp of \<^verbatim>\<open>now_iso()\<close> are inputs of the model.
\<close>

datatype error = InvalidInput | NotFound | ServerError

definition list_posts :: "store \<Rightarrow> string post list" where
  "list_posts s = posts s"

definition create_post ::
  "body \<Rightarrow> string \<Rightarrow> string \<Rightarrow> store \<Rightarrow> (error + jval post) \<times> store" where
  "create_post b uuid now s =
     (if \<not> truthy (get b ''username'') \<or> \<not> truthy (get b ''content'')
      then (Inl InvalidInput, s)
      else
        let post = \<lparr>post_id = uuid, post_username = get b ''username'',
                    post_content = get b ''content'', post_createdAt = now,
                    post_updatedAt = now, post_likes = 0, post_comments = 0\<rparr>
        in case (sql_text (post_username post), sql_text (post_content post)) of
             (Some u, Some c) \<Rightarrow>
               (case insert_post \<lparr>post_id = post_id post, post_username = u,
                                  post_content = c, post_createdAt = post_createdAt post,
                                  post_updatedAt = post_updatedAt post,
                                  post_likes = post_likes post,
                                  post_comments = post_comments post\<rparr> s of
                  None \<Rightarrow> (Inl ServerError, s)
                | Some s' \<Rightarrow> (Inr post, s'))
           | _ \<Rightarrow> (Inl ServerError, s))"

definition get_post :: "string \<Rightarrow> store \<Rightarrow> error + string post" where
  "get_post pid s = (case select_post s pid of None \<Rightarrow> Inl NotFound | Some row \<Rightarrow> Inr row)"

definition update_post ::
  "string \<Rightarrow> body \<Rightarrow> string \<Rightarrow> store \<Rightarrow> (error + string post) \<times> store" where
  "update_post pid b now s =
     (if \<not> truthy (get b ''username'') \<or> \<not> truthy (get b ''content'')
      then (Inl InvalidInput, s)
      else case select_post s pid of
             None \<Rightarrow> (Inl NotFound, s)
           | Some _ \<Rightarrow>
               (case (sql_text (get b ''username''), sql_text (get b ''content'')) of
                  (Some u, Some c) \<Rightarrow>
                    let s' = update_post_row u c now pid s
                    in (case select_post s' pid of
                          None \<Rightarrow> (Inl ServerError, s')
                        | Some row \<Rightarrow> (Inr row, s'))
                | _ \<Rightarrow> (Inl ServerError, s)))"

definition delete_post :: "string \<Rightarrow> store \<Rightarrow> (error + nat) \<times> store" where
  "delete_post pid s =
     (case select_post s pid of
        None \<Rightarrow> (Inl NotFound, s)
      | Some _ \<Rightarrow>
          (Inr 204,
           delete_likes_by_post pid (delete_comments_by_post pid (delete_posts_by_id pid s))))"

definition list_comments :: "string \<Rightarrow> store \<Rightarrow> error + string comment list" where
  "list_comments pid s =
     (case select_post s pid of
        None \<Rightarrow> Inl NotFound
      | Some _ \<Rightarrow> Inr (filter (\<lambda>c. comment_postId c = pid) (comments s)))"

definition create_comment ::
  "string \<Rightarrow> body \<Rightarrow> string \<Rightarrow> string \<Rightarrow> store \<Rightarrow> (error + jval comment) \<times> store" where
  "create_comment pid b uuid now s =
     (if \<not> truthy (get b ''username'') \<or> \<not> truthy (get b ''content'')
      then (Inl InvalidInput, s)
      else
        let comment = \<lparr>comment_id = uuid, comment_postId = pid,
                       comment_username = get b ''username'',
                       comment_content = get b ''content'',
                       comment_createdAt = now, comment_updatedAt = now\<rparr>
        in case select_post s pid of
             None \<Rightarrow> (Inl NotFound, s)
           | Some _ \<Rightarrow>
               (case (sql_text (comment_username comment), sql_text (comment_content comment)) of
                  (Some u, Some c) \<Rightarrow>
                    (case insert_comment
                            \<lparr>comment_id = comment_id comment,
                             comment_postId = comment_postId comment,
                             comment_username = u, comment_content = c,
                             comment_createdAt = comment_createdAt comment,
                             comment_updatedAt = comment_updatedAt comment\<rparr> s of
                       None \<Rightarrow> (Inl ServerError, s)
                     | Some s' \<Rightarrow> (Inr comment, incr_comments pid s'))
                | _ \<Rightarrow> (Inl ServerError, s)))"

definition get_comment :: "string \<Rightarrow> string \<Rightarrow> store \<Rightarrow> error + string comment" where
  "get_comment pid cid s =
     (case select_comment s cid pid of None \<Rightarrow> Inl NotFound | Some row \<Rightarrow> Inr row)"

definition update_comment ::
  "string \<Rightarrow> string \<Rightarrow> body \<Rightarrow> string \<Rightarrow> store \<Rightarrow> (error + string comment) \<times> store" where
  "update_comment pid cid b now s =
     (if \<not> truthy (get b ''username'') \<or> \<not> truthy (get b ''content'')
      then (Inl InvalidInput, s)
      else case select_comment s cid pid of
             None \<Rightarrow> (Inl NotFound, s)
           | Some _ \<Rightarrow>
               (case (sql_text (get b ''username''), sql_text (get b ''content'')) of
                  (Some u, Some c) \<Rightarrow>
                    let s' = update_comment_row u c now cid pid s
                    in (case select_comment s' cid pid of
                          None \<Rightarrow> (Inl ServerError, s')
                        | Some row \<Rightarrow> (Inr row, s'))
                | _ \<Rightarrow> (Inl ServerError, s)))"

definition delete_comment :: "string \<Rightarrow> string \<Rightarrow> store \<Rightarrow> (error + nat) \<times> store" where
  "delete_comment pid cid s =
     (case select_comment s cid pid of
        None \<Rightarrow> (Inl NotFound, s)
      | Some _ \<Rightarrow> (Inr 204, decr_comments pid (delete_comment_row cid pid s)))"

text \<open>
  \<^verbatim>\<open>like_post\<close> ignores the \<^verbatim>\<open>IntegrityError\<close> of the INSERT: nothing is committed
  and the answer is 201 all the same.
\<close>

definition like_post :: "string \<Rightarrow> body \<Rightarrow> store \<Rightarrow> (error + nat) \<times> store" where
  "like_post pid b s =
     (if \<not> truthy (get b ''username'') then (Inl InvalidInput, s)
      else case select_post s pid of
             None \<Rightarrow> (Inl NotFound, s)
           | Some _ \<Rightarrow>
               (case sql_text (get b ''username'') of
                  None \<Rightarrow> (Inl ServerError, s)
                | Some u \<Rightarrow>
                    (case insert_like \<lparr>like_postId = pid, like_username = u\<rparr> s of
                       None \<Rightarrow> (Inr 201, s)
                     | Some s' \<Rightarrow> (Inr 201, incr_likes pid s'))))"

definition unlike_post :: "string \<Rightarrow> body \<Rightarrow> store \<Rightarrow> (error + nat) \<times> store" where
  "unlike_post pid b s =
     (if \<not> truthy (get b ''username'') then (Inl InvalidInput, s)
      else case select_post s pid of
             None \<Rightarrow> (Inl NotFound, s)
           | Some _ \<Rightarrow>
               (case sql_text (get b ''username'') of
                  None \<Rightarrow> (Inl ServerError, s)
                | Some u \<Rightarrow>
                    (case select_like s pid u of
                       None \<Rightarrow> (Inr 204, s)
                     | Some _ \<Rightarrow> (Inr 204, decr_likes pid (delete_like_row pid u s)))))"

subsection \<open>The two phases of creating a comment\<close>

text \<open>
  The connection of a handler is opened in the driver's default mode, in which a SELECT
  opens no transaction: the write transaction of \<^verbatim>\<open>create_comment\<close> begins with its
  INSERT and ends at its commit. The handler is therefore two steps on the committed
  store, and the commit of another request can fall between them: first the
  validation and the SELECT of the post, which write nothing (\<open>Some\<close> is the error
  raised, \<open>None\<close> lets the handler go on), then the INSERT, the UPDATE of the counter
  and the commit.
\<close>

definition create_comment_check :: "string \<Rightarrow> body \<Rightarrow> store \<Rightarrow> error option" where
  "create_comment_check pid b s =
     (if \<not> truthy (get b ''username'') \<or> \<not> truthy (get b ''content'')
      then Some InvalidInput
      else case select_post s pid of None \<Rightarrow> Some NotFound | Some _ \<Rightarrow> None)"

definition create_comment_write ::
  "string \<Rightarrow> body \<Rightarrow> string \<Rightarrow> string \<Rightarrow> store \<Rightarrow> (error + jval comment) \<times> store" where
  "create_comment_write pid b uuid now s =
     (let comment = \<lparr>comment_id = uuid, comment_postId = pid,
                     comment_username = get b ''username'',
                     comment_content = get b ''content'',
                     comment_createdAt = now, comment_updatedAt = now\<rparr>
      in case (sql_text (comment_username comment), sql_text (comment_content comment)) of
           (Some u, Some c) \<Rightarrow>
             (case insert_comment
                     \<lparr>comment_id = comment_id comment,
                      comment_postId = comment_postId comment,
                      comment_username = u, comment_content = c,
                      comment_createdAt = comment_createdAt comment,
                      comment_updatedAt = comment_updatedAt comment\<rparr> s of
                None \<Rightarrow> (Inl ServerError, s)
              | Some s' \<Rightarrow> (Inr comment, incr_comments pid s'))
         | _ \<Rightarrow> (Inl ServerError, s))"

section \<open>Sequences of requests\<close>

datatype request =
    CreatePost body string string
  | UpdatePost string body string
  | DeletePost string
  | CreateComment string body string string
  | UpdateComment string string body string
  | DeleteComment string string
  | LikePost string body
  | UnlikePost string body

fun handle :: "request \<Rightarrow> store \<Rightarrow> store" where
  "handle (CreatePost b uuid now) s = snd (create_post b uuid now s)"
| "handle (UpdatePost pid b now) s = snd (update_post pid b now s)"
| "handle (DeletePost pid) s = snd (delete_post pid s)"
| "handle (CreateComment pid b uuid now) s = snd (create_comment pid b uuid now s)"
| "handle (UpdateComment pid cid b now) s = snd (update_comment pid cid b now s)"
| "handle (DeleteComment pid cid) s = snd (delete_comment pid cid s)"
| "handle (LikePost pid b) s = snd (like_post pid b s)"
| "handle (UnlikePost pid b) s = snd (unlike_post pid b s)"

text \<open>The store after a sequence of requests, served one after the other.\<close>

definition run :: "request list \<Rightarrow> store \<Rightarrow> store" where
  "run rs s = fold handle rs s"

text \<open>The number of like rows and of comment rows that name a post.\<close>

definition like_count :: "store \<Rightarrow> string \<Rightarrow> int" where
  "like_count s pid = int (length (filter (\<lambda>l. like_postId l = pid) (likes s)))"

definition comment_count :: "store \<Rightarrow> string \<Rightarrow> int" where
  "comment_count s pid = int (length (filter (\<lambda>c. comment_postId c = pid) (comments s)))"

text \<open>The primary keys of the schema: no table holds a key twice.\<close>

definition pk_ok :: "store \<Rightarrow> bool" where
  "pk_ok s \<longleftrightarrow>
     distinct (map post_id (posts s)) \<and>
     distinct (map comment_id (comments s)) \<and>
     distinct (map (\<lambda>l. (like_postId l, like_username l)) (likes s))"

text \<open>Referential integrity: every comment and every like names a stored post.\<close>

definition ref_ok :: "store \<Rightarrow> bool" where
  "ref_ok s \<longleftrightarrow>
     (\<forall>c \<in> set (comments s). comment_postId c \<in> set (map post_id (posts s))) \<and>
     (\<forall>l \<in> set (likes s). like_postId l \<in> set (map post_id (posts s)))"

text \<open>The counters of every post agree with the rows that name it.\<close>

definition counters_ok :: "store \<Rightarrow> bool" where
  "counters_ok s \<longleftrightarrow>
     (\<forall>p \<in> set (posts s).
        post_likes p = like_count s (post_id p) \<and>
        post_comments p = comment_count s (post_id p))"

definition consistent :: "store \<Rightarrow> bool" where
  "consistent s \<longleftrightarrow> pk_ok s \<and> ref_ok s \<and> counters_ok s"

section \<open>Lookups and counting\<close>

lemma find_Some_set: "find P xs = Some x \<Longrightarrow> x \<in> set xs \<and> P x"
  by (induction xs) (auto split: if_splits)

lemma select_post_None: "select_post s pid = None \<longleftrightarrow> pid \<notin> set (map post_id (posts s))"
  by (auto simp: select_post_def find_None_iff)

lemma select_post_Some: "select_post s pid = Some p \<Longrightarrow> p \<in> set (posts s) \<and> post_id p = pid"
  unfolding select_post_def by (drule find_Some_set) simp

lemma select_comment_Some:
  "select_comment s cid pid = Some c \<Longrightarrow> c \<in> set (comments s) \<and> comment_id c = cid \<and> comment_postId c = pid"
  unfolding select_comment_def by (drule find_Some_set) simp

lemma select_like_Some:
  "select_like s pid u = Some l \<Longrightarrow> l \<in> set (likes s) \<and> like_postId l = pid \<and> like_username l = u"
  unfolding select_like_def by (drule find_Some_set) simp

lemma map_key_unchanged: "(\<And>x. f (g x) = f x) \<Longrightarrow> map (f \<circ> g) xs = map f xs"
  by simp

lemma remove_row_count:
  assumes "distinct (map f xs)" and "x \<in> set xs" and "D x" and "P x"
    and "\<And>y. D y \<Longrightarrow> f y = f x"
  shows "length (filter P xs) = Suc (length (filter (\<lambda>y. \<not> D y \<and> P y) xs))"
  using assms(1,2)
proof (induction xs)
  case Nil
  then show ?case by simp
next
  case (Cons a xs)
  show ?case
  proof (cases "a = x")
    case True
    from Cons.prems(1) True have "f x \<notin> f ` set xs" by simp
    then have "\<forall>y \<in> set xs. \<not> D y" using assms(5) by (metis image_eqI)
    then have "filter (\<lambda>y. \<not> D y \<and> P y) xs = filter P xs"
      by (auto intro: filter_cong)
    with True assms(3,4) show ?thesis by simp
  next
    case False
    with Cons.prems have in_xs: "x \<in> set xs" and "f a \<noteq> f x" by auto
    then have "\<not> D a" using assms(5) by auto
    moreover have "length (filter P xs) = Suc (length (filter (\<lambda>y. \<not> D y \<and> P y) xs))"
      using Cons.IH Cons.prems(1) in_xs by simp
    ultimately show ?thesis by simp
  qed
qed

lemma ref_ok_subset:
  "ref_ok s \<longleftrightarrow>
     set (map comment_postId (comments s)) \<subseteq> set (map post_id (posts s)) \<and>
     set (map like_postId (likes s)) \<subseteq> set (map post_id (posts s))"
  by (auto simp: ref_ok_def)

lemma init_db_consistent: "consistent init_db"
  by (simp add: consistent_def pk_ok_def ref_ok_def counters_ok_def init_db_def)

text \<open>Rewriting the rows of posts without touching a key.\<close>

lemma pk_ok_map_posts:
  "(\<And>p. post_id (g p) = post_id p) \<Longrightarrow> pk_ok (s\<lparr>posts := map g (posts s)\<rparr>) = pk_ok s"
  by (simp add: pk_ok_def map_key_unchanged)

lemma ref_ok_map_posts:
  "(\<And>p. post_id (g p) = post_id p) \<Longrightarrow> ref_ok (s\<lparr>posts := map g (posts s)\<rparr>) = ref_ok s"
  by (simp add: ref_ok_def map_key_unchanged del: set_map)

lemma counters_ok_map_posts:
  assumes "\<And>p. post_id (g p) = post_id p" "\<And>p. post_likes (g p) = post_likes p"
    "\<And>p. post_comments (g p) = post_comments p"
  shows "counters_ok (s\<lparr>posts := map g (posts s)\<rparr>) = counters_ok s"
  by (simp add: counters_ok_def like_count_def comment_count_def assms)

lemma update_post_row_consistent: "consistent s \<Longrightarrow> consistent (update_post_row u c now pid s)"
  unfolding consistent_def update_post_row_def
  by (simp add: pk_ok_map_posts ref_ok_map_posts counters_ok_map_posts)

lemma update_post_cases:
  "snd (update_post pid b now s) = s \<or>
   (\<exists>u c. snd (update_post pid b now s) = update_post_row u c now pid s)"
  by (auto simp: update_post_def Let_def split: option.splits)

lemma update_post_consistent: "consistent s \<Longrightarrow> consistent (snd (update_post pid b now s))"
  using update_post_cases [of pid b now s] by (auto simp: update_post_row_consistent)

lemma create_post_consistent: "consistent s \<Longrightarrow> consistent (snd (create_post b uuid now s))"
  unfolding consistent_def
  by (auto simp: create_post_def Let_def insert_post_def pk_ok_def ref_ok_def counters_ok_def
       like_count_def comment_count_def filter_empty_conv split: option.splits if_splits)


lemma delete_post_cases:
  "snd (delete_post pid s) = s \<or>
   snd (delete_post pid s) =
     delete_likes_by_post pid (delete_comments_by_post pid (delete_posts_by_id pid s))"
  by (auto simp: delete_post_def split: option.splits)

lemma cascade_consistent:
  assumes "consistent s"
  shows "consistent (delete_likes_by_post pid (delete_comments_by_post pid (delete_posts_by_id pid s)))"
proof -
  let ?s' = "delete_likes_by_post pid (delete_comments_by_post pid (delete_posts_by_id pid s))"
  have tables: "posts ?s' = filter (\<lambda>p. post_id p \<noteq> pid) (posts s)"
    "comments ?s' = filter (\<lambda>c. comment_postId c \<noteq> pid) (comments s)"
    "likes ?s' = filter (\<lambda>l. like_postId l \<noteq> pid) (likes s)"
    by (simp_all add: delete_likes_by_post_def delete_comments_by_post_def delete_posts_by_id_def)
  from assms have pk: "pk_ok s" and rf: "ref_ok s" and ct: "counters_ok s"
    by (simp_all add: consistent_def)
  have "pk_ok ?s'"
    using pk by (simp add: pk_ok_def tables distinct_map_filter)
  moreover have "ref_ok ?s'"
    using rf by (auto simp: ref_ok_def tables)
  moreover have "counters_ok ?s'"
    unfolding counters_ok_def
  proof
    fix p assume "p \<in> set (posts ?s')"
    then have p: "p \<in> set (posts s)" and ne: "post_id p \<noteq> pid" by (simp_all add: tables)
    have "filter (\<lambda>l. like_postId l = post_id p) (likes ?s')
            = filter (\<lambda>l. like_postId l = post_id p) (likes s)"
      using ne by (auto simp: tables intro: filter_cong)
    moreover have "filter (\<lambda>c. comment_postId c = post_id p) (comments ?s')
            = filter (\<lambda>c. comment_postId c = post_id p) (comments s)"
      using ne by (auto simp: tables intro: filter_cong)
    ultimately show "post_likes p = like_count ?s' (post_id p) \<and>
        post_comments p = comment_count ?s' (post_id p)"
      using ct p by (simp add: counters_ok_def like_count_def comment_count_def)
  qed
  ultimately show ?thesis by (simp add: consistent_def)
qed

lemma delete_post_consistent: "consistent s \<Longrightarrow> consistent (snd (delete_post pid s))"
  using delete_post_cases [of pid s] by (auto simp: cascade_consistent)


lemma add_comment_consistent:
  assumes "consistent s" and "comment_postId row = pid"
    and "comment_id row \<notin> set (map comment_id (comments s))"
    and "pid \<in> set (map post_id (posts s))"
  shows "consistent (incr_comments pid (s\<lparr>comments := comments s @ [row]\<rparr>))"
proof -
  let ?g = "\<lambda>p. if post_id p = pid then p\<lparr>post_comments := post_comments p + 1\<rparr> else p"
  let ?s' = "incr_comments pid (s\<lparr>comments := comments s @ [row]\<rparr>)"
  have tables: "posts ?s' = map ?g (posts s)" "comments ?s' = comments s @ [row]"
    "likes ?s' = likes s"
    by (simp_all add: incr_comments_def)
  have ids: "map post_id (posts ?s') = map post_id (posts s)"
    by (simp add: tables)
  from assms(1) have pk: "pk_ok s" and rf: "ref_ok s" and ct: "counters_ok s"
    by (simp_all add: consistent_def)
  have "pk_ok ?s'"
    using pk assms(3) by (simp add: pk_ok_def ids) (simp add: tables)
  moreover have "ref_ok ?s'"
    using rf assms(2,4) unfolding ref_ok_def ids by (auto simp: tables)
  moreover have "counters_ok ?s'"
    unfolding counters_ok_def
  proof
    fix q assume "q \<in> set (posts ?s')"
    then obtain p where p: "p \<in> set (posts s)" and q: "q = ?g p" by (auto simp: tables)
    from ct p have c: "post_likes p = like_count s (post_id p)"
      "post_comments p = comment_count s (post_id p)"
      by (simp_all add: counters_ok_def)
    show "post_likes q = like_count ?s' (post_id q) \<and>
        post_comments q = comment_count ?s' (post_id q)"
      using c assms(2) by (simp add: q like_count_def comment_count_def tables)
  qed
  ultimately show ?thesis by (simp add: consistent_def)
qed

lemma create_comment_consistent:
  assumes "consistent s"
  shows "consistent (snd (create_comment pid b uuid now s))"
proof (cases "select_post s pid")
  case None
  with assms show ?thesis by (simp add: create_comment_def Let_def)
next
  case (Some p)
  then have "pid \<in> set (map post_id (posts s))"
    using select_post_None [of s pid] by simp
  with Some assms show ?thesis
    by (auto simp: create_comment_def Let_def insert_comment_def split: option.splits
        intro!: add_comment_consistent)
qed

lemma update_comment_cases:
  "snd (update_comment pid cid b now s) = s \<or>
   (\<exists>u c. snd (update_comment pid cid b now s) = update_comment_row u c now cid pid s)"
  by (auto simp: update_comment_def Let_def split: option.splits)

lemma update_comment_row_consistent:
  assumes "consistent s"
  shows "consistent (update_comment_row u c now cid pid s)"
proof -
  let ?g = "\<lambda>r. if comment_id r = cid \<and> comment_postId r = pid
        then r\<lparr>comment_username := u, comment_content := c, comment_updatedAt := now\<rparr> else r"
  let ?s' = "update_comment_row u c now cid pid s"
  have tables: "posts ?s' = posts s" "comments ?s' = map ?g (comments s)" "likes ?s' = likes s"
    by (simp_all add: update_comment_row_def)
  have ids: "map comment_id (comments ?s') = map comment_id (comments s)"
    "map comment_postId (comments ?s') = map comment_postId (comments s)"
    by (simp_all add: tables)
  have cnt: "comment_count ?s' k = comment_count s k" for k
  proof -
    have "length (filter (\<lambda>c. comment_postId c = k) (comments ?s'))
        = length (filter (\<lambda>x. x = k) (map comment_postId (comments ?s')))"
      by (simp add: filter_map comp_def)
    also have "\<dots> = length (filter (\<lambda>c. comment_postId c = k) (comments s))"
      unfolding ids by (simp add: filter_map comp_def)
    finally show ?thesis by (simp add: comment_count_def)
  qed
  from assms have pk: "pk_ok s" and rf: "ref_ok s" and ct: "counters_ok s"
    by (simp_all add: consistent_def)
  have "pk_ok ?s'"
    using pk unfolding pk_ok_def ids by (simp add: tables)
  moreover have "ref_ok ?s'"
    using rf unfolding ref_ok_subset ids by (simp add: tables)
  moreover have "counters_ok ?s'"
    using ct by (simp add: counters_ok_def cnt) (simp add: tables like_count_def)
  ultimately show ?thesis by (simp add: consistent_def)
qed

lemma update_comment_consistent:
  "consistent s \<Longrightarrow> consistent (snd (update_comment pid cid b now s))"
  using update_comment_cases [of pid cid b now s] by (auto simp: update_comment_row_consistent)


lemma remove_comment_consistent:
  assumes "consistent s" and "select_comment s cid pid = Some r"
  shows "consistent (decr_comments pid (delete_comment_row cid pid s))"
proof -
  let ?D = "\<lambda>c. comment_id c = cid \<and> comment_postId c = pid"
  let ?g = "\<lambda>p. if post_id p = pid \<and> post_comments p > 0
        then p\<lparr>post_comments := post_comments p - 1\<rparr> else p"
  let ?s' = "decr_comments pid (delete_comment_row cid pid s)"
  have tables: "posts ?s' = map ?g (posts s)"
    "comments ?s' = filter (\<lambda>c. \<not> ?D c) (comments s)" "likes ?s' = likes s"
    by (simp_all add: decr_comments_def delete_comment_row_def)
  have ids: "map post_id (posts ?s') = map post_id (posts s)"
    by (simp add: tables)
  from assms(1) have pk: "pk_ok s" and rf: "ref_ok s" and ct: "counters_ok s"
    by (simp_all add: consistent_def)
  from assms(2) have r: "r \<in> set (comments s)" "?D r"
    using select_comment_Some by auto
  have one: "length (filter (\<lambda>c. comment_postId c = pid) (comments s))
      = Suc (length (filter (\<lambda>c. \<not> ?D c \<and> comment_postId c = pid) (comments s)))"
    using pk r by (intro remove_row_count [where f = comment_id and x = r])
      (simp_all add: pk_ok_def)
  have other: "filter (\<lambda>c. \<not> ?D c \<and> comment_postId c = k) (comments s)
      = filter (\<lambda>c. comment_postId c = k) (comments s)" if "k \<noteq> pid" for k
    using that by (auto intro: filter_cong)
  have "pk_ok ?s'"
    using pk unfolding pk_ok_def ids by (simp add: tables distinct_map_filter)
  moreover have "ref_ok ?s'"
    using rf unfolding ref_ok_def ids by (simp add: tables)
  moreover have "counters_ok ?s'"
    unfolding counters_ok_def
  proof
    fix q assume "q \<in> set (posts ?s')"
    then obtain p where p: "p \<in> set (posts s)" and q: "q = ?g p" by (auto simp: tables)
    from ct p have c: "post_likes p = like_count s (post_id p)"
      "post_comments p = comment_count s (post_id p)"
      by (simp_all add: counters_ok_def)
    show "post_likes q = like_count ?s' (post_id q) \<and>
        post_comments q = comment_count ?s' (post_id q)"
    proof (cases "post_id p = pid")
      case True
      with c one show ?thesis
        by (simp add: q like_count_def comment_count_def tables)
    next
      case False
      with c other [of "post_id p"] show ?thesis
        by (simp add: q like_count_def comment_count_def tables)
    qed
  qed
  ultimately show ?thesis by (simp add: consistent_def)
qed

lemma delete_comment_consistent:
  "consistent s \<Longrightarrow> consistent (snd (delete_comment pid cid s))"
  by (auto simp: delete_comment_def remove_comment_consistent split: option.splits)

lemma add_like_consistent:
  assumes "consistent s" and "select_post s pid = Some p0"
    and "(pid, u) \<notin> set (map (\<lambda>l. (like_postId l, like_username l)) (likes s))"
  shows "consistent (incr_likes pid (s\<lparr>likes := likes s @ [\<lparr>like_postId = pid, like_username = u\<rparr>]\<rparr>))"
proof -
  let ?g = "\<lambda>p. if post_id p = pid then p\<lparr>post_likes := post_likes p + 1\<rparr> else p"
  let ?s' = "incr_likes pid (s\<lparr>likes := likes s @ [\<lparr>like_postId = pid, like_username = u\<rparr>]\<rparr>)"
  have tables: "posts ?s' = map ?g (posts s)" "comments ?s' = comments s"
    "likes ?s' = likes s @ [\<lparr>like_postId = pid, like_username = u\<rparr>]"
    by (simp_all add: incr_likes_def)
  have ids: "map post_id (posts ?s') = map post_id (posts s)"
    by (simp add: tables)
  from assms(1) have pk: "pk_ok s" and rf: "ref_ok s" and ct: "counters_ok s"
    by (simp_all add: consistent_def)
  from assms(2) have ex: "pid \<in> set (map post_id (posts s))"
    using select_post_None [of s pid] by simp
  have "pk_ok ?s'"
    using pk assms(3) by (simp add: pk_ok_def ids) (simp add: tables)
  moreover have "ref_ok ?s'"
    using rf ex unfolding ref_ok_def ids by (auto simp: tables)
  moreover have "counters_ok ?s'"
    unfolding counters_ok_def
  proof
    fix q assume "q \<in> set (posts ?s')"
    then obtain p where p: "p \<in> set (posts s)" and q: "q = ?g p" by (auto simp: tables)
    from ct p have c: "post_likes p = like_count s (post_id p)"
      "post_comments p = comment_count s (post_id p)"
      by (simp_all add: counters_ok_def)
    show "post_likes q = like_count ?s' (post_id q) \<and>
        post_comments q = comment_count ?s' (post_id q)"
      using c by (simp add: q like_count_def comment_count_def tables)
  qed
  ultimately show ?thesis by (simp add: consistent_def)
qed

lemma like_post_consistent: "consistent s \<Longrightarrow> consistent (snd (like_post pid b s))"
  by (auto simp: like_post_def insert_like_def split: option.splits if_splits
      intro!: add_like_consistent)

lemma remove_like_consistent:
  assumes "consistent s" and "select_like s pid u = Some r"
  shows "consistent (decr_likes pid (delete_like_row pid u s))"
proof -
  let ?D = "\<lambda>l. like_postId l = pid \<and> like_username l = u"
  let ?g = "\<lambda>p. if post_id p = pid \<and> post_likes p > 0
        then p\<lparr>post_likes := post_likes p - 1\<rparr> else p"
  let ?s' = "decr_likes pid (delete_like_row pid u s)"
  have tables: "posts ?s' = map ?g (posts s)" "comments ?s' = comments s"
    "likes ?s' = filter (\<lambda>l. \<not> ?D l) (likes s)"
    by (simp_all add: decr_likes_def delete_like_row_def)
  have ids: "map post_id (posts ?s') = map post_id (posts s)"
    by (simp add: tables)
  from assms(1) have pk: "pk_ok s" and rf: "ref_ok s" and ct: "counters_ok s"
    by (simp_all add: consistent_def)
  from assms(2) have r: "r \<in> set (likes s)" "?D r"
    using select_like_Some by auto
  have one: "length (filter (\<lambda>l. like_postId l = pid) (likes s))
      = Suc (length (filter (\<lambda>l. \<not> ?D l \<and> like_postId l = pid) (likes s)))"
    using pk r by (intro remove_row_count [where f = "\<lambda>l. (like_postId l, like_username l)" and x = r])
      (simp_all add: pk_ok_def)
  have other: "filter (\<lambda>l. \<not> ?D l \<and> like_postId l = k) (likes s)
      = filter (\<lambda>l. like_postId l = k) (likes s)" if "k \<noteq> pid" for k
    using that by (auto intro: filter_cong)
  have "pk_ok ?s'"
    using pk unfolding pk_ok_def ids by (simp add: tables distinct_map_filter)
  moreover have "ref_ok ?s'"
    using rf unfolding ref_ok_def ids by (simp add: tables)
  moreover have "counters_ok ?s'"
    unfolding counters_ok_def
  proof
    fix q assume "q \<in> set (posts ?s')"
    then obtain p where p: "p \<in> set (posts s)" and q: "q = ?g p" by (auto simp: tables)
    from ct p have c: "post_likes p = like_count s (post_id p)"
      "post_comments p = comment_count s (post_id p)"
      by (simp_all add: counters_ok_def)
    show "post_likes q = like_count ?s' (post_id q) \<and>
        post_comments q = comment_count ?s' (post_id q)"
    proof (cases "post_id p = pid")
      case True
      with c one show ?thesis
        by (simp add: q like_count_def comment_count_def tables)
    next
      case False
      with c other [of "post_id p"] show ?thesis
        by (simp add: q like_count_def comment_count_def tables)
    qed
  qed
  ultimately show ?thesis by (simp add: consistent_def)
qed

lemma unlike_post_consistent: "consistent s \<Longrightarrow> consistent (snd (unlike_post pid b s))"
  by (auto simp: unlike_post_def remove_like_consistent split: option.splits)

lemma handle_consistent: "consistent s \<Longrightarrow> consistent (handle r s)"
  by (cases r)
    (simp_all add: create_post_consistent update_post_consistent delete_post_consistent
      create_comment_consistent update_comment_consistent delete_comment_consistent
      like_post_consistent unlike_post_consistent)

lemma run_consistent: "consistent s \<Longrightarrow> consistent (run rs s)"
  unfolding run_def by (induction rs arbitrary: s) (simp_all add: handle_consistent)

lemma find_map_key:
  "(\<And>x. P (g x) = P x) \<Longrightarrow> find P (map g xs) = map_option g (find P xs)"
  by (induction xs) auto

lemma select_post_exists: "select_post s pid \<noteq> None \<longleftrightarrow> pid \<in> set (map post_id (posts s))"
  using select_post_None [of s pid] by simp

section \<open>The counters and the rows\<close>

text \<open>
  C1. Start from the empty database of \<^verbatim>\<open>init_db\<close> and serve any sequence of requests
  one after the other (the six of the claim, and the two updates as well). Then every
  stored post has a \<^verbatim>\<open>likes\<close> counter equal to the number of like rows with its id
  as \<^verbatim>\<open>postId\<close>, and a \<^verbatim>\<open>comments\<close> counter equal to the number of comment rows with
  its id as \<^verbatim>\<open>postId\<close>.
\<close>

theorem counters_match_rows:
  "p \<in> set (posts (run rs init_db)) \<Longrightarrow>
     post_likes p =
       int (length (filter (\<lambda>l. like_postId l = post_id p) (likes (run rs init_db)))) \<and>
     post_comments p =
       int (length (filter (\<lambda>c. comment_postId c = post_id p) (comments (run rs init_db))))"
  using run_consistent [OF init_db_consistent, of rs]
  by (simp add: consistent_def counters_ok_def like_count_def comment_count_def)

text \<open>
  The scenario of the specification up to the comment: a post, the same like twice
  and one comment leave the post with one like and one comment.
\<close>

theorem counters_match_rows_witness:
  "\<lparr>post_id = ''p1'', post_username = ''a'', post_content = ''hi'', post_createdAt = ''t0'',
     post_updatedAt = ''t0'', post_likes = 1, post_comments = 1\<rparr>
   \<in> set (posts (run
        [CreatePost [''username'' \<mapsto> JStr ''a'', ''content'' \<mapsto> JStr ''hi''] ''p1'' ''t0'',
         LikePost ''p1'' [''username'' \<mapsto> JStr ''b''],
         LikePost ''p1'' [''username'' \<mapsto> JStr ''b''],
         CreateComment ''p1'' [''username'' \<mapsto> JStr ''c'', ''content'' \<mapsto> JStr ''x'']
           ''c1'' ''t1'']
        init_db)) \<and>
   (1::int) = int (length (filter (\<lambda>l. like_postId l = ''p1'') (likes (run
        [CreatePost [''username'' \<mapsto> JStr ''a'', ''content'' \<mapsto> JStr ''hi''] ''p1'' ''t0'',
         LikePost ''p1'' [''username'' \<mapsto> JStr ''b''],
         LikePost ''p1'' [''username'' \<mapsto> JStr ''b''],
         CreateComment ''p1'' [''username'' \<mapsto> JStr ''c'', ''content'' \<mapsto> JStr ''x'']
           ''c1'' ''t1'']
        init_db)))) \<and>
   (1::int) = int (length (filter (\<lambda>c. comment_postId c = ''p1'') (comments (run
        [CreatePost [''username'' \<mapsto> JStr ''a'', ''content'' \<mapsto> JStr ''hi''] ''p1'' ''t0'',
         LikePost ''p1'' [''username'' \<mapsto> JStr ''b''],
         LikePost ''p1'' [''username'' \<mapsto> JStr ''b''],
         CreateComment ''p1'' [''username'' \<mapsto> JStr ''c'', ''content'' \<mapsto> JStr ''x'']
           ''c1'' ''t1'']
        init_db))))"
proof -
  let ?rs = "[CreatePost [''username'' \<mapsto> JStr ''a'', ''content'' \<mapsto> JStr ''hi''] ''p1'' ''t0'',
         LikePost ''p1'' [''username'' \<mapsto> JStr ''b''],
         LikePost ''p1'' [''username'' \<mapsto> JStr ''b''],
         CreateComment ''p1'' [''username'' \<mapsto> JStr ''c'', ''content'' \<mapsto> JStr ''x'']
           ''c1'' ''t1'']"
  let ?p = "\<lparr>post_id = ''p1'', post_username = ''a'', post_content = ''hi'',
     post_createdAt = ''t0'', post_updatedAt = ''t0'', post_likes = 1, post_comments = 1\<rparr>"
  have h: "?p \<in> set (posts (run ?rs init_db))"
    by code_simp
  from counters_match_rows [OF h] h show ?thesis by simp
qed

lemma select_like_None:
  "select_like s pid u = None \<longleftrightarrow>
     (pid, u) \<notin> set (map (\<lambda>l. (like_postId l, like_username l)) (likes s))"
  by (auto simp: select_like_def find_None_iff)

lemma key_count_one:
  assumes "distinct (map f xs)" and "x \<in> set xs"
  shows "length (filter (\<lambda>y. f y = f x) xs) = 1"
proof -
  have "filter (\<lambda>y. \<not> f y = f x \<and> f y = f x) xs = []"
    by (simp add: filter_empty_conv)
  with remove_row_count [OF assms, of "\<lambda>y. f y = f x" "\<lambda>y. f y = f x"]
  show ?thesis by simp
qed

lemma get_post_incr_likes:
  "get_post pid s = Inr p \<Longrightarrow>
   get_post pid (incr_likes pid (s\<lparr>likes := ls\<rparr>)) = Inr (p\<lparr>post_likes := post_likes p + 1\<rparr>)"
proof -
  assume "get_post pid s = Inr p"
  then have f: "select_post s pid = Some p"
    by (simp add: get_post_def split: option.splits)
  then have "post_id p = pid" using select_post_Some by auto
  with f show ?thesis
    by (simp add: get_post_def select_post_def incr_likes_def find_map_key)
qed

lemma like_post_new:
  assumes "get_post pid s = Inr p" and "get b ''username'' = JStr u" and "u \<noteq> []"
    and "select_like s pid u = None"
  shows "like_post pid b s =
    (Inr 201, incr_likes pid (s\<lparr>likes := likes s @ [\<lparr>like_postId = pid, like_username = u\<rparr>]\<rparr>))"
  using assms
  by (auto simp: like_post_def get_post_def insert_like_def select_like_None split: option.splits)

lemma like_post_again:
  assumes "get_post pid s = Inr p" and "get b ''username'' = JStr u" and "u \<noteq> []"
    and "select_like s pid u = Some l"
  shows "like_post pid b s = (Inr 201, s)"
proof -
  from assms(4) have "select_like s pid u \<noteq> None" by simp
  then have "(pid, u) \<in> set (map (\<lambda>l. (like_postId l, like_username l)) (likes s))"
    using select_like_None [of s pid u] by simp
  with assms(1-3) show ?thesis
    by (auto simp: like_post_def get_post_def insert_like_def split: option.splits)
qed

section \<open>Liking and unliking\<close>

text \<open>
  C2, as amended. Let \<open>pid\<close> name a stored post, let the body carry a non-empty
  string \<open>u\<close> as \<^verbatim>\<open>username\<close>, and let the likes table respect its primary key. Then
  \<^verbatim>\<open>like_post\<close> called twice in succession answers 201 both times, the second call
  leaves the store as the first call left it, exactly one like row keyed \<open>(pid, u)\<close>
  is stored afterwards, and the post read back is the post of before, with its
  \<^verbatim>\<open>likes\<close> counter one greater when no row \<open>(pid, u)\<close> existed before the first
  call and with nothing changed when the row existed already.
\<close>

theorem like_twice:
  assumes "get_post pid s = Inr p" and "get b ''username'' = JStr u" and "u \<noteq> []"
    and "pk_ok s"
  shows "fst (like_post pid b s) = Inr 201 \<and>
    like_post pid b (snd (like_post pid b s)) = (Inr 201, snd (like_post pid b s)) \<and>
    length (filter (\<lambda>l. like_postId l = pid \<and> like_username l = u)
      (likes (snd (like_post pid b (snd (like_post pid b s)))))) = 1 \<and>
    get_post pid (snd (like_post pid b (snd (like_post pid b s)))) =
      Inr (if \<forall>l \<in> set (likes s). \<not> (like_postId l = pid \<and> like_username l = u)
           then p\<lparr>post_likes := post_likes p + 1\<rparr> else p)"
proof (cases "select_like s pid u")
  case None
  let ?l = "\<lparr>like_postId = pid, like_username = u\<rparr>"
  let ?s1 = "incr_likes pid (s\<lparr>likes := likes s @ [?l]\<rparr>)"
  have first: "like_post pid b s = (Inr 201, ?s1)"
    using like_post_new [OF assms(1-3) None] .
  have p1: "get_post pid ?s1 = Inr (p\<lparr>post_likes := post_likes p + 1\<rparr>)"
    using get_post_incr_likes [OF assms(1)] .
  have "select_like ?s1 pid u \<noteq> None"
    by (simp add: select_like_None incr_likes_def)
  then obtain l where "select_like ?s1 pid u = Some l" by auto
  then have second: "like_post pid b ?s1 = (Inr 201, ?s1)"
    using like_post_again [OF p1 assms(2,3)] by simp
  have none: "\<forall>l \<in> set (likes s). \<not> (like_postId l = pid \<and> like_username l = u)"
    using None by (auto simp: select_like_def find_None_iff)
  then have "filter (\<lambda>l. like_postId l = pid \<and> like_username l = u) (likes s) = []"
    by (simp add: filter_empty_conv)
  then have "length (filter (\<lambda>l. like_postId l = pid \<and> like_username l = u) (likes ?s1)) = 1"
    by (simp add: incr_likes_def)
  with first second p1 none show ?thesis by simp
next
  case (Some l)
  have first: "like_post pid b s = (Inr 201, s)"
    using like_post_again [OF assms(1-3) Some] .
  from Some have l: "l \<in> set (likes s)" "like_postId l = pid" "like_username l = u"
    using select_like_Some by auto
  have "length (filter (\<lambda>y. (like_postId y, like_username y) = (like_postId l, like_username l))
      (likes s)) = 1"
    using assms(4) l(1) by (intro key_count_one) (simp_all add: pk_ok_def)
  then have one: "length (filter (\<lambda>l. like_postId l = pid \<and> like_username l = u) (likes s)) = 1"
    using l by simp
  have "\<not> (\<forall>l \<in> set (likes s). \<not> (like_postId l = pid \<and> like_username l = u))"
    using l by auto
  with first one assms(1) show ?thesis by simp
qed

text \<open>A post without likes: after the two calls it has one.\<close>

theorem like_twice_witness:
  "fst (like_post ''p1'' [''username'' \<mapsto> JStr ''b'']
     \<lparr>posts = [\<lparr>post_id = ''p1'', post_username = ''a'', post_content = ''hi'',
                post_createdAt = ''t0'', post_updatedAt = ''t0'', post_likes = 0,
                post_comments = 0\<rparr>], comments = [], likes = []\<rparr>) = Inr 201 \<and>
   get_post ''p1'' (snd (like_post ''p1'' [''username'' \<mapsto> JStr ''b'']
     (snd (like_post ''p1'' [''username'' \<mapsto> JStr ''b'']
     \<lparr>posts = [\<lparr>post_id = ''p1'', post_username = ''a'', post_content = ''hi'',
                post_createdAt = ''t0'', post_updatedAt = ''t0'', post_likes = 0,
                post_comments = 0\<rparr>], comments = [], likes = []\<rparr>)))) =
     Inr \<lparr>post_id = ''p1'', post_username = ''a'', post_content = ''hi'',
          post_createdAt = ''t0'', post_updatedAt = ''t0'', post_likes = 1, post_comments = 0\<rparr>"
proof -
  let ?p = "\<lparr>post_id = ''p1'', post_username = ''a'', post_content = ''hi'',
                post_createdAt = ''t0'', post_updatedAt = ''t0'', post_likes = 0,
                post_comments = 0\<rparr>"
  let ?s = "\<lparr>posts = [?p], comments = [], likes = []\<rparr>"
  let ?b = "[''username'' \<mapsto> JStr ''b'']"
  have h1: "get_post ''p1'' ?s = Inr ?p" by (simp add: get_post_def select_post_def)
  have h2: "get ?b ''username'' = JStr ''b''" by (simp add: get_def)
  have h3: "''b'' \<noteq> []" by simp
  have h4: "pk_ok ?s" by (simp add: pk_ok_def)
  from like_twice [OF h1 h2 h3 h4]
  have a: "fst (like_post ''p1'' ?b ?s) = Inr 201"
    and d: "get_post ''p1'' (snd (like_post ''p1'' ?b (snd (like_post ''p1'' ?b ?s)))) =
      Inr (if \<forall>l \<in> set (likes ?s). \<not> (like_postId l = ''p1'' \<and> like_username l = ''b'')
           then ?p\<lparr>post_likes := post_likes ?p + 1\<rparr> else ?p)"
    by blast+
  from a d show ?thesis by simp
qed

text \<open>
  C2 as it was stated promises a counter one greater for every stored post and every
  non-empty user name. After one post and one like by \<open>b\<close> (the store of the first
  conjunct, reached from the empty database), two more likes by \<open>b\<close> leave the counter
  at 1: it is not 2.
\<close>

theorem like_twice_counterexample:
  "run [CreatePost [''username'' \<mapsto> JStr ''a'', ''content'' \<mapsto> JStr ''hi''] ''p1'' ''t0'',
        LikePost ''p1'' [''username'' \<mapsto> JStr ''b'']] init_db =
     \<lparr>posts = [\<lparr>post_id = ''p1'', post_username = ''a'', post_content = ''hi'',
                post_createdAt = ''t0'', post_updatedAt = ''t0'', post_likes = 1,
                post_comments = 0\<rparr>],
      comments = [], likes = [\<lparr>like_postId = ''p1'', like_username = ''b''\<rparr>]\<rparr> \<and>
   get_post ''p1''
     (snd (like_post ''p1'' [''username'' \<mapsto> JStr ''b'']
       (snd (like_post ''p1'' [''username'' \<mapsto> JStr ''b'']
         \<lparr>posts = [\<lparr>post_id = ''p1'', post_username = ''a'', post_content = ''hi'',
                    post_createdAt = ''t0'', post_updatedAt = ''t0'', post_likes = 1,
                    post_comments = 0\<rparr>],
          comments = [], likes = [\<lparr>like_postId = ''p1'', like_username = ''b''\<rparr>]\<rparr>)))) =
     Inr \<lparr>post_id = ''p1'', post_username = ''a'', post_content = ''hi'',
          post_createdAt = ''t0'', post_updatedAt = ''t0'', post_likes = 1, post_comments = 0\<rparr> \<and>
   get_post ''p1''
     (snd (like_post ''p1'' [''username'' \<mapsto> JStr ''b'']
       (snd (like_post ''p1'' [''username'' \<mapsto> JStr ''b'']
         \<lparr>posts = [\<lparr>post_id = ''p1'', post_username = ''a'', post_content = ''hi'',
                    post_createdAt = ''t0'', post_updatedAt = ''t0'', post_likes = 1,
                    post_comments = 0\<rparr>],
          comments = [], likes = [\<lparr>like_postId = ''p1'', like_username = ''b''\<rparr>]\<rparr>)))) \<noteq>
     Inr \<lparr>post_id = ''p1'', post_username = ''a'', post_content = ''hi'',
          post_createdAt = ''t0'', post_updatedAt = ''t0'', post_likes = 1 + 1, post_comments = 0\<rparr>"
  by code_simp

text \<open>
  C3. When \<open>pid\<close> names a stored post, the body carries a non-empty string \<open>u\<close> as
  \<^verbatim>\<open>username\<close> and no like row \<open>(pid, u)\<close> is stored, \<^verbatim>\<open>unlike_post\<close> answers 204 and
  returns the store unchanged, the \<^verbatim>\<open>likes\<close> counter with it. And in no store reached
  from the empty database by a sequence of requests is the \<^verbatim>\<open>likes\<close> counter of a
  post negative.
\<close>

theorem unlike_without_edge:
  "(get_post pid s = Inr p \<and> get b ''username'' = JStr u \<and> u \<noteq> [] \<and>
      (\<forall>l \<in> set (likes s). \<not> (like_postId l = pid \<and> like_username l = u))
      \<longrightarrow> unlike_post pid b s = (Inr 204, s)) \<and>
   (\<forall>q \<in> set (posts (run rs init_db)). 0 \<le> post_likes q)"
proof
  show "get_post pid s = Inr p \<and> get b ''username'' = JStr u \<and> u \<noteq> [] \<and>
      (\<forall>l \<in> set (likes s). \<not> (like_postId l = pid \<and> like_username l = u))
      \<longrightarrow> unlike_post pid b s = (Inr 204, s)"
  proof
    assume h: "get_post pid s = Inr p \<and> get b ''username'' = JStr u \<and> u \<noteq> [] \<and>
      (\<forall>l \<in> set (likes s). \<not> (like_postId l = pid \<and> like_username l = u))"
    then have "select_like s pid u = None"
      by (simp add: select_like_def find_None_iff)
    with h show "unlike_post pid b s = (Inr 204, s)"
      by (auto simp: unlike_post_def get_post_def split: option.splits)
  qed
next
  have "consistent (run rs init_db)"
    using run_consistent [OF init_db_consistent] .
  then show "\<forall>q \<in> set (posts (run rs init_db)). 0 \<le> post_likes q"
    by (simp add: consistent_def counters_ok_def like_count_def)
qed

text \<open>
  Unliking as \<open>z\<close> a post that only \<open>b\<close> likes, and the post of a run that unlikes
  twice after one like.
\<close>

theorem unlike_without_edge_witness:
  "unlike_post ''p1'' [''username'' \<mapsto> JStr ''z'']
     \<lparr>posts = [\<lparr>post_id = ''p1'', post_username = ''a'', post_content = ''hi'',
                post_createdAt = ''t0'', post_updatedAt = ''t0'', post_likes = 1,
                post_comments = 0\<rparr>],
      comments = [], likes = [\<lparr>like_postId = ''p1'', like_username = ''b''\<rparr>]\<rparr> =
   (Inr 204,
     \<lparr>posts = [\<lparr>post_id = ''p1'', post_username = ''a'', post_content = ''hi'',
                post_createdAt = ''t0'', post_updatedAt = ''t0'', post_likes = 1,
                post_comments = 0\<rparr>],
      comments = [], likes = [\<lparr>like_postId = ''p1'', like_username = ''b''\<rparr>]\<rparr>) \<and>
   \<lparr>post_id = ''p1'', post_username = ''a'', post_content = ''hi'', post_createdAt = ''t0'',
     post_updatedAt = ''t0'', post_likes = 0, post_comments = 0\<rparr>
     \<in> set (posts (run
        [CreatePost [''username'' \<mapsto> JStr ''a'', ''content'' \<mapsto> JStr ''hi''] ''p1'' ''t0'',
         LikePost ''p1'' [''username'' \<mapsto> JStr ''b''],
         UnlikePost ''p1'' [''username'' \<mapsto> JStr ''b''],
         UnlikePost ''p1'' [''username'' \<mapsto> JStr ''b'']] init_db)) \<and>
   (0::int) \<le> post_likes
     \<lparr>post_id = ''p1'', post_username = ''a'', post_content = ''hi'', post_createdAt = ''t0'',
       post_updatedAt = ''t0'', post_likes = 0, post_comments = 0\<rparr>"
proof -
  let ?p = "\<lparr>post_id = ''p1'', post_username = ''a'', post_content = ''hi'',
                post_createdAt = ''t0'', post_updatedAt = ''t0'', post_likes = 1,
                post_comments = 0\<rparr>"
  let ?s = "\<lparr>posts = [?p], comments = [],
      likes = [\<lparr>like_postId = ''p1'', like_username = ''b''\<rparr>]\<rparr>"
  let ?b = "[''username'' \<mapsto> JStr ''z'']"
  let ?q = "\<lparr>post_id = ''p1'', post_username = ''a'', post_content = ''hi'',
     post_createdAt = ''t0'', post_updatedAt = ''t0'', post_likes = 0, post_comments = 0\<rparr>"
  let ?rs = "[CreatePost [''username'' \<mapsto> JStr ''a'', ''content'' \<mapsto> JStr ''hi''] ''p1'' ''t0'',
         LikePost ''p1'' [''username'' \<mapsto> JStr ''b''],
         UnlikePost ''p1'' [''username'' \<mapsto> JStr ''b''],
         UnlikePost ''p1'' [''username'' \<mapsto> JStr ''b'']]"
  have h: "get_post ''p1'' ?s = Inr ?p \<and> get ?b ''username'' = JStr ''z'' \<and> ''z'' \<noteq> [] \<and>
      (\<forall>l \<in> set (likes ?s). \<not> (like_postId l = ''p1'' \<and> like_username l = ''z''))"
    by (simp add: get_post_def select_post_def get_def)
  have m: "?q \<in> set (posts (run ?rs init_db))"
    by code_simp
  from unlike_without_edge [of "''p1''" ?s ?p ?b "''z''" ?rs] h m
  show ?thesis by blast
qed

section \<open>Deleting a post\<close>

text \<open>
  C4. \<^verbatim>\<open>delete_post\<close> of an id that names no stored post answers \<open>NotFound\<close> and
  returns the store unchanged. For an id that names a stored post it answers 204 and
  the store it returns has lost, at once, exactly the posts with that id, the comments
  with that \<^verbatim>\<open>postId\<close> and the likes with that \<^verbatim>\<open>postId\<close>; in that store \<^verbatim>\<open>get_post\<close> of
  the id is \<open>NotFound\<close>, and so is \<^verbatim>\<open>get_comment\<close> of the id with any comment id.
  There is no third outcome, so the cascade is all or nothing.
\<close>

theorem delete_post_cascade:
  "(select_post s pid = None \<longrightarrow> delete_post pid s = (Inl NotFound, s)) \<and>
   (select_post s pid \<noteq> None \<longrightarrow>
      fst (delete_post pid s) = Inr 204 \<and>
      posts (snd (delete_post pid s)) = filter (\<lambda>p. post_id p \<noteq> pid) (posts s) \<and>
      comments (snd (delete_post pid s)) = filter (\<lambda>c. comment_postId c \<noteq> pid) (comments s) \<and>
      likes (snd (delete_post pid s)) = filter (\<lambda>l. like_postId l \<noteq> pid) (likes s) \<and>
      get_post pid (snd (delete_post pid s)) = Inl NotFound \<and>
      (\<forall>cid. get_comment pid cid (snd (delete_post pid s)) = Inl NotFound))"
proof (cases "select_post s pid")
  case None
  then show ?thesis by (simp add: delete_post_def)
next
  case (Some p)
  let ?s' = "delete_likes_by_post pid (delete_comments_by_post pid (delete_posts_by_id pid s))"
  have r: "delete_post pid s = (Inr 204, ?s')"
    using Some by (simp add: delete_post_def)
  have tables: "posts ?s' = filter (\<lambda>p. post_id p \<noteq> pid) (posts s)"
    "comments ?s' = filter (\<lambda>c. comment_postId c \<noteq> pid) (comments s)"
    "likes ?s' = filter (\<lambda>l. like_postId l \<noteq> pid) (likes s)"
    by (simp_all add: delete_likes_by_post_def delete_comments_by_post_def delete_posts_by_id_def)
  have "select_post ?s' pid = None"
    by (simp add: select_post_def find_None_iff tables)
  then have gp: "get_post pid ?s' = Inl NotFound"
    by (simp add: get_post_def)
  have "select_comment ?s' cid pid = None" for cid
    by (simp add: select_comment_def find_None_iff tables)
  then have gc: "\<forall>cid. get_comment pid cid ?s' = Inl NotFound"
    by (simp add: get_comment_def)
  from Some r tables gp gc show ?thesis by simp
qed

text \<open>
  A post with one comment and one like: deleting it leaves the empty database, and
  deleting it from the empty database is \<open>NotFound\<close>.
\<close>

theorem delete_post_cascade_witness:
  "select_post
     \<lparr>posts = [\<lparr>post_id = ''p1'', post_username = ''a'', post_content = ''hi'',
                post_createdAt = ''t0'', post_updatedAt = ''t0'', post_likes = 1,
                post_comments = 1\<rparr>],
      comments = [\<lparr>comment_id = ''c1'', comment_postId = ''p1'', comment_username = ''c'',
                   comment_content = ''x'', comment_createdAt = ''t1'',
                   comment_updatedAt = ''t1''\<rparr>],
      likes = [\<lparr>like_postId = ''p1'', like_username = ''b''\<rparr>]\<rparr> ''p1'' \<noteq> None \<and>
   snd (delete_post ''p1''
     \<lparr>posts = [\<lparr>post_id = ''p1'', post_username = ''a'', post_content = ''hi'',
                post_createdAt = ''t0'', post_updatedAt = ''t0'', post_likes = 1,
                post_comments = 1\<rparr>],
      comments = [\<lparr>comment_id = ''c1'', comment_postId = ''p1'', comment_username = ''c'',
                   comment_content = ''x'', comment_createdAt = ''t1'',
                   comment_updatedAt = ''t1''\<rparr>],
      likes = [\<lparr>like_postId = ''p1'', like_username = ''b''\<rparr>]\<rparr>) = init_db \<and>
   get_comment ''p1'' ''c1'' (snd (delete_post ''p1''
     \<lparr>posts = [\<lparr>post_id = ''p1'', post_username = ''a'', post_content = ''hi'',
                post_createdAt = ''t0'', post_updatedAt = ''t0'', post_likes = 1,
                post_comments = 1\<rparr>],
      comments = [\<lparr>comment_id = ''c1'', comment_postId = ''p1'', comment_username = ''c'',
                   comment_content = ''x'', comment_createdAt = ''t1'',
                   comment_updatedAt = ''t1''\<rparr>],
      likes = [\<lparr>like_postId = ''p1'', like_username = ''b''\<rparr>]\<rparr>)) = Inl NotFound \<and>
   select_post init_db ''p1'' = None \<and>
   delete_post ''p1'' init_db = (Inl NotFound, init_db)"
proof -
  let ?s = "\<lparr>posts = [\<lparr>post_id = ''p1'', post_username = ''a'', post_content = ''hi'',
                post_createdAt = ''t0'', post_updatedAt = ''t0'', post_likes = 1,
                post_comments = 1\<rparr>],
      comments = [\<lparr>comment_id = ''c1'', comment_postId = ''p1'', comment_username = ''c'',
                   comment_content = ''x'', comment_createdAt = ''t1'',
                   comment_updatedAt = ''t1''\<rparr>],
      likes = [\<lparr>like_postId = ''p1'', like_username = ''b''\<rparr>]\<rparr>"
  have h: "select_post ?s ''p1'' \<noteq> None"
    by (simp add: select_post_def)
  have n: "select_post init_db ''p1'' = None"
    by (simp add: select_post_def init_db_def)
  from delete_post_cascade [of ?s "''p1''"] h
  have t: "posts (snd (delete_post ''p1'' ?s)) = filter (\<lambda>p. post_id p \<noteq> ''p1'') (posts ?s)"
    "comments (snd (delete_post ''p1'' ?s)) = filter (\<lambda>c. comment_postId c \<noteq> ''p1'') (comments ?s)"
    "likes (snd (delete_post ''p1'' ?s)) = filter (\<lambda>l. like_postId l \<noteq> ''p1'') (likes ?s)"
    "get_comment ''p1'' ''c1'' (snd (delete_post ''p1'' ?s)) = Inl NotFound"
    by blast+
  have e: "snd (delete_post ''p1'' ?s) = init_db"
    using t(1-3) by (cases "snd (delete_post ''p1'' ?s)") (simp add: init_db_def)
  from delete_post_cascade [of init_db "''p1''"] n
  have d: "delete_post ''p1'' init_db = (Inl NotFound, init_db)"
    by blast
  from h e t(4) n d show ?thesis by simp
qed

text \<open>
  C5, as amended. In every store reached from the empty database by a sequence of
  requests served one after the other, each handler running from its first statement
  to its commit with no statement of another request in between, every comment row
  and every like row has a \<^verbatim>\<open>postId\<close> that is the id of a stored post.
\<close>

theorem no_orphans:
  "(\<forall>c \<in> set (comments (run rs init_db)).
      \<exists>p \<in> set (posts (run rs init_db)). post_id p = comment_postId c) \<and>
   (\<forall>l \<in> set (likes (run rs init_db)).
      \<exists>p \<in> set (posts (run rs init_db)). post_id p = like_postId l)"
proof -
  have "consistent (run rs init_db)"
    using run_consistent [OF init_db_consistent] .
  then have "ref_ok (run rs init_db)" by (simp add: consistent_def)
  then show ?thesis by (simp add: ref_ok_def image_iff) metis
qed

text \<open>After a post, a like and a comment, the like and the comment name the post.\<close>

theorem no_orphans_witness:
  "\<lparr>like_postId = ''p1'', like_username = ''b''\<rparr>
     \<in> set (likes (run
        [CreatePost [''username'' \<mapsto> JStr ''a'', ''content'' \<mapsto> JStr ''hi''] ''p1'' ''t0'',
         LikePost ''p1'' [''username'' \<mapsto> JStr ''b''],
         CreateComment ''p1'' [''username'' \<mapsto> JStr ''c'', ''content'' \<mapsto> JStr ''x'']
           ''c1'' ''t1''] init_db)) \<and>
   \<lparr>comment_id = ''c1'', comment_postId = ''p1'', comment_username = ''c'',
     comment_content = ''x'', comment_createdAt = ''t1'', comment_updatedAt = ''t1''\<rparr>
     \<in> set (comments (run
        [CreatePost [''username'' \<mapsto> JStr ''a'', ''content'' \<mapsto> JStr ''hi''] ''p1'' ''t0'',
         LikePost ''p1'' [''username'' \<mapsto> JStr ''b''],
         CreateComment ''p1'' [''username'' \<mapsto> JStr ''c'', ''content'' \<mapsto> JStr ''x'']
           ''c1'' ''t1''] init_db)) \<and>
   (\<exists>p \<in> set (posts (run
        [CreatePost [''username'' \<mapsto> JStr ''a'', ''content'' \<mapsto> JStr ''hi''] ''p1'' ''t0'',
         LikePost ''p1'' [''username'' \<mapsto> JStr ''b''],
         CreateComment ''p1'' [''username'' \<mapsto> JStr ''c'', ''content'' \<mapsto> JStr ''x'']
           ''c1'' ''t1''] init_db)). post_id p = ''p1'')"
proof -
  let ?rs = "[CreatePost [''username'' \<mapsto> JStr ''a'', ''content'' \<mapsto> JStr ''hi''] ''p1'' ''t0'',
         LikePost ''p1'' [''username'' \<mapsto> JStr ''b''],
         CreateComment ''p1'' [''username'' \<mapsto> JStr ''c'', ''content'' \<mapsto> JStr ''x'']
           ''c1'' ''t1'']"
  let ?l = "\<lparr>like_postId = ''p1'', like_username = ''b''\<rparr>"
  let ?c = "\<lparr>comment_id = ''c1'', comment_postId = ''p1'', comment_username = ''c'',
     comment_content = ''x'', comment_createdAt = ''t1'', comment_updatedAt = ''t1''\<rparr>"
  have l: "?l \<in> set (likes (run ?rs init_db))"
    by code_simp
  have c: "?c \<in> set (comments (run ?rs init_db))"
    by code_simp
  from no_orphans [of ?rs] l
  have "\<exists>p \<in> set (posts (run ?rs init_db)). post_id p = like_postId ?l"
    by blast
  with l c show ?thesis by simp
qed

lemma create_comment_phases:
  "create_comment pid b uuid now s =
     (case create_comment_check pid b s of
        Some e \<Rightarrow> (Inl e, s)
      | None \<Rightarrow> create_comment_write pid b uuid now s)"
  by (simp add: create_comment_def create_comment_check_def create_comment_write_def Let_def
      split: option.splits)

text \<open>
  C5 as it was stated speaks of every reachable state and of every operation. Served
  one after the other, the two phases of \<^verbatim>\<open>create_comment\<close> are the handler
  (\<open>create_comment_phases\<close>); but when a whole \<^verbatim>\<open>delete_post\<close> is served between them,
  the store committed at the end holds a comment whose post is gone. From the store
  with the one post \<open>p1\<close>: the check of a comment for \<open>p1\<close> passes, \<^verbatim>\<open>delete_post\<close>
  empties the store, and the write phase then commits the comment \<open>c1\<close> of \<open>p1\<close>
  into a store where \<^verbatim>\<open>get_post\<close> of \<open>p1\<close> is \<open>NotFound\<close>.
\<close>

theorem orphan_counterexample:
  "run [CreatePost [''username'' \<mapsto> JStr ''a'', ''content'' \<mapsto> JStr ''hi''] ''p1'' ''t0''] init_db =
     \<lparr>posts = [\<lparr>post_id = ''p1'', post_username = ''a'', post_content = ''hi'',
                post_createdAt = ''t0'', post_updatedAt = ''t0'', post_likes = 0,
                post_comments = 0\<rparr>], comments = [], likes = []\<rparr> \<and>
   create_comment_check ''p1'' [''username'' \<mapsto> JStr ''c'', ''content'' \<mapsto> JStr ''x'']
     \<lparr>posts = [\<lparr>post_id = ''p1'', post_username = ''a'', post_content = ''hi'',
                post_createdAt = ''t0'', post_updatedAt = ''t0'', post_likes = 0,
                post_comments = 0\<rparr>], comments = [], likes = []\<rparr> = None \<and>
   delete_post ''p1''
     \<lparr>posts = [\<lparr>post_id = ''p1'', post_username = ''a'', post_content = ''hi'',
                post_createdAt = ''t0'', post_updatedAt = ''t0'', post_likes = 0,
                post_comments = 0\<rparr>], comments = [], likes = []\<rparr> =
     (Inr 204, \<lparr>posts = [], comments = [], likes = []\<rparr>) \<and>
   create_comment_write ''p1'' [''username'' \<mapsto> JStr ''c'', ''content'' \<mapsto> JStr ''x'']
       ''c1'' ''t1'' \<lparr>posts = [], comments = [], likes = []\<rparr> =
     (Inr \<lparr>comment_id = ''c1'', comment_postId = ''p1'', comment_username = JStr ''c'',
           comment_content = JStr ''x'', comment_createdAt = ''t1'',
           comment_updatedAt = ''t1''\<rparr>,
      \<lparr>posts = [],
       comments = [\<lparr>comment_id = ''c1'', comment_postId = ''p1'', comment_username = ''c'',
                    comment_content = ''x'', comment_createdAt = ''t1'',
                    comment_updatedAt = ''t1''\<rparr>],
       likes = []\<rparr>) \<and>
   get_post ''p1''
     \<lparr>posts = [],
      comments = [\<lparr>comment_id = ''c1'', comment_postId = ''p1'', comment_username = ''c'',
                   comment_content = ''x'', comment_createdAt = ''t1'',
                   comment_updatedAt = ''t1''\<rparr>],
      likes = []\<rparr> = Inl NotFound \<and>
   \<not> ref_ok
     \<lparr>posts = [],
      comments = [\<lparr>comment_id = ''c1'', comment_postId = ''p1'', comment_username = ''c'',
                   comment_content = ''x'', comment_createdAt = ''t1'',
                   comment_updatedAt = ''t1''\<rparr>],
      likes = []\<rparr>"
  by code_simp

lemma find_append_fresh:
  "find P xs = None \<Longrightarrow> find P (xs @ ys) = find P ys"
  by (induction xs) (auto split: if_splits)

section \<open>Creating and updating a post\<close>

text \<open>
  C6. \<^verbatim>\<open>create_post\<close> answers \<open>InvalidInput\<close>, the store unchanged, when \<^verbatim>\<open>username\<close> or
  \<^verbatim>\<open>content\<close> is missing or falsy. When both are truthy and the driver can bind them (as
  it can every non-empty string) and the identifier drawn by \<^verbatim>\<open>uuid4\<close> is not the id
  of a stored post, it returns the new post, with \<^verbatim>\<open>createdAt\<close> and \<^verbatim>\<open>updatedAt\<close> both
  the time stamp taken and both counters 0, and appends its row to the posts. And
  whenever it returns a post at all, the id of that post is the id of no post stored
  before, its two time stamps are equal, its counters are 0, and \<^verbatim>\<open>get_post\<close> of that
  id in the new store reads a row with that id, equal time stamps and counters 0.
\<close>

theorem create_post_spec:
  "(\<not> truthy (get b ''username'') \<or> \<not> truthy (get b ''content'')
      \<longrightarrow> create_post b uuid now s = (Inl InvalidInput, s)) \<and>
   (truthy (get b ''username'') \<and> truthy (get b ''content'') \<and>
    sql_text (get b ''username'') = Some u \<and> sql_text (get b ''content'') = Some c \<and>
    uuid \<notin> set (map post_id (posts s))
      \<longrightarrow> create_post b uuid now s =
            (Inr \<lparr>post_id = uuid, post_username = get b ''username'',
                  post_content = get b ''content'', post_createdAt = now,
                  post_updatedAt = now, post_likes = 0, post_comments = 0\<rparr>,
             s\<lparr>posts := posts s @
                  [\<lparr>post_id = uuid, post_username = u, post_content = c,
                    post_createdAt = now, post_updatedAt = now, post_likes = 0,
                    post_comments = 0\<rparr>]\<rparr>)) \<and>
   (\<forall>r s'. create_post b uuid now s = (Inr r, s')
      \<longrightarrow> post_id r \<notin> set (map post_id (posts s)) \<and>
          post_createdAt r = post_updatedAt r \<and> post_likes r = 0 \<and> post_comments r = 0 \<and>
          (\<exists>row. get_post (post_id r) s' = Inr row \<and> post_id row = post_id r \<and>
             post_createdAt row = post_updatedAt row \<and>
             post_likes row = 0 \<and> post_comments row = 0))"
proof (intro conjI)
  show "\<not> truthy (get b ''username'') \<or> \<not> truthy (get b ''content'')
      \<longrightarrow> create_post b uuid now s = (Inl InvalidInput, s)"
    by (auto simp: create_post_def)
next
  show "truthy (get b ''username'') \<and> truthy (get b ''content'') \<and>
    sql_text (get b ''username'') = Some u \<and> sql_text (get b ''content'') = Some c \<and>
    uuid \<notin> set (map post_id (posts s))
      \<longrightarrow> create_post b uuid now s =
            (Inr \<lparr>post_id = uuid, post_username = get b ''username'',
                  post_content = get b ''content'', post_createdAt = now,
                  post_updatedAt = now, post_likes = 0, post_comments = 0\<rparr>,
             s\<lparr>posts := posts s @
                  [\<lparr>post_id = uuid, post_username = u, post_content = c,
                    post_createdAt = now, post_updatedAt = now, post_likes = 0,
                    post_comments = 0\<rparr>]\<rparr>)"
    by (simp add: create_post_def Let_def insert_post_def)
next
  show "\<forall>r s'. create_post b uuid now s = (Inr r, s')
      \<longrightarrow> post_id r \<notin> set (map post_id (posts s)) \<and>
          post_createdAt r = post_updatedAt r \<and> post_likes r = 0 \<and> post_comments r = 0 \<and>
          (\<exists>row. get_post (post_id r) s' = Inr row \<and> post_id row = post_id r \<and>
             post_createdAt row = post_updatedAt row \<and>
             post_likes row = 0 \<and> post_comments row = 0)"
  proof (intro allI impI)
  fix r s' assume ok: "create_post b uuid now s = (Inr r, s')"
  then obtain u c where fresh: "uuid \<notin> set (map post_id (posts s))"
    and r: "r = \<lparr>post_id = uuid, post_username = get b ''username'',
                  post_content = get b ''content'', post_createdAt = now,
                  post_updatedAt = now, post_likes = 0, post_comments = 0\<rparr>"
    and s': "s' = s\<lparr>posts := posts s @
                  [\<lparr>post_id = uuid, post_username = u, post_content = c,
                    post_createdAt = now, post_updatedAt = now, post_likes = 0,
                    post_comments = 0\<rparr>]\<rparr>"
    by (auto simp: create_post_def Let_def insert_post_def split: if_splits option.splits)
  from fresh have "find (\<lambda>p. post_id p = uuid) (posts s) = None"
    by (auto simp: find_None_iff)
  then have "get_post uuid s' = Inr \<lparr>post_id = uuid, post_username = u, post_content = c,
                    post_createdAt = now, post_updatedAt = now, post_likes = 0,
                    post_comments = 0\<rparr>"
    by (simp add: get_post_def select_post_def s' find_append_fresh)
  with fresh r show "post_id r \<notin> set (map post_id (posts s)) \<and>
          post_createdAt r = post_updatedAt r \<and> post_likes r = 0 \<and> post_comments r = 0 \<and>
          (\<exists>row. get_post (post_id r) s' = Inr row \<and> post_id row = post_id r \<and>
             post_createdAt row = post_updatedAt row \<and>
             post_likes row = 0 \<and> post_comments row = 0)"
    by simp
  qed
qed

text \<open>A body without \<^verbatim>\<open>content\<close> is refused; the first post of the scenario is created.\<close>

theorem create_post_spec_witness:
  "create_post [''username'' \<mapsto> JStr ''a''] ''p1'' ''t0'' init_db = (Inl InvalidInput, init_db) \<and>
   create_post [''username'' \<mapsto> JStr ''a'', ''content'' \<mapsto> JStr ''hi''] ''p1'' ''t0'' init_db =
     (Inr \<lparr>post_id = ''p1'', post_username = JStr ''a'', post_content = JStr ''hi'',
           post_createdAt = ''t0'', post_updatedAt = ''t0'', post_likes = 0,
           post_comments = 0\<rparr>,
      \<lparr>posts = [\<lparr>post_id = ''p1'', post_username = ''a'', post_content = ''hi'',
                 post_createdAt = ''t0'', post_updatedAt = ''t0'', post_likes = 0,
                 post_comments = 0\<rparr>], comments = [], likes = []\<rparr>) \<and>
   ''p1'' \<notin> set (map post_id (posts init_db))"
proof -
  let ?e = "[''username'' \<mapsto> JStr ''a'']"
  let ?b = "[''username'' \<mapsto> JStr ''a'', ''content'' \<mapsto> JStr ''hi'']"
  have h0: "\<not> truthy (get ?e ''username'') \<or> \<not> truthy (get ?e ''content'')"
    by (simp add: get_def)
  have h: "truthy (get ?b ''username'') \<and> truthy (get ?b ''content'') \<and>
    sql_text (get ?b ''username'') = Some ''a'' \<and> sql_text (get ?b ''content'') = Some ''hi'' \<and>
    ''p1'' \<notin> set (map post_id (posts init_db))"
    by (simp add: get_def init_db_def)
  have g: "get ?b ''username'' = JStr ''a''" "get ?b ''content'' = JStr ''hi''"
    by (simp_all add: get_def)
  from create_post_spec [where b = ?e and uuid = "''p1''" and now = "''t0''" and s = init_db] h0
  have a: "create_post ?e ''p1'' ''t0'' init_db = (Inl InvalidInput, init_db)"
    by blast
  from create_post_spec [where b = ?b and uuid = "''p1''" and now = "''t0''" and s = init_db
      and u = "''a''" and c = "''hi''"] h
  have c: "create_post ?b ''p1'' ''t0'' init_db =
            (Inr \<lparr>post_id = ''p1'', post_username = get ?b ''username'',
                  post_content = get ?b ''content'', post_createdAt = ''t0'',
                  post_updatedAt = ''t0'', post_likes = 0, post_comments = 0\<rparr>,
             init_db\<lparr>posts := posts init_db @
                  [\<lparr>post_id = ''p1'', post_username = ''a'', post_content = ''hi'',
                    post_createdAt = ''t0'', post_updatedAt = ''t0'', post_likes = 0,
                    post_comments = 0\<rparr>]\<rparr>)"
    by blast
  have f: "''p1'' \<notin> set (map post_id (posts init_db))"
    using h by blast
  from a c f show ?thesis
    unfolding g by (simp add: init_db_def)
qed

text \<open>
  C7. When \<open>pid\<close> names a stored post \<open>p\<close> and both fields of the body are truthy and
  bound as the texts \<open>u\<close> and \<open>c\<close>, \<^verbatim>\<open>update_post\<close> returns \<open>p\<close> with \<^verbatim>\<open>username\<close>, \<^verbatim>\<open>content\<close>
  and \<^verbatim>\<open>updatedAt\<close> replaced and every other field (\<^verbatim>\<open>id\<close>, \<^verbatim>\<open>createdAt\<close>, \<^verbatim>\<open>likes\<close>,
  \<^verbatim>\<open>comments\<close>) as it was; in the store it returns, the posts with another id, the
  comments and the likes are unchanged, and \<^verbatim>\<open>get_post\<close> reads the updated post.
\<close>

theorem update_post_frame:
  assumes "get_post pid s = Inr p"
    and "truthy (get b ''username'')" and "truthy (get b ''content'')"
    and "sql_text (get b ''username'') = Some u" and "sql_text (get b ''content'') = Some c"
  shows "fst (update_post pid b now s) =
      Inr (p\<lparr>post_username := u, post_content := c, post_updatedAt := now\<rparr>) \<and>
    posts (snd (update_post pid b now s)) =
      map (\<lambda>q. if post_id q = pid
                then q\<lparr>post_username := u, post_content := c, post_updatedAt := now\<rparr>
                else q) (posts s) \<and>
    comments (snd (update_post pid b now s)) = comments s \<and>
    likes (snd (update_post pid b now s)) = likes s \<and>
    get_post pid (snd (update_post pid b now s)) =
      Inr (p\<lparr>post_username := u, post_content := c, post_updatedAt := now\<rparr>)"
proof -
  let ?g = "\<lambda>q. if post_id q = pid
      then q\<lparr>post_username := u, post_content := c, post_updatedAt := now\<rparr> else q"
  let ?s' = "update_post_row u c now pid s"
  from assms(1) have f: "select_post s pid = Some p"
    by (simp add: get_post_def split: option.splits)
  then have id: "post_id p = pid" using select_post_Some by auto
  have "select_post ?s' pid = map_option ?g (select_post s pid)"
    by (simp add: select_post_def update_post_row_def find_map_key)
  with f id have f': "select_post ?s' pid =
      Some (p\<lparr>post_username := u, post_content := c, post_updatedAt := now\<rparr>)"
    by simp
  with f assms(2-5) have r: "update_post pid b now s =
      (Inr (p\<lparr>post_username := u, post_content := c, post_updatedAt := now\<rparr>), ?s')"
    by (simp add: update_post_def Let_def)
  show ?thesis
    unfolding r using f' by (simp add: get_post_def) (simp add: update_post_row_def)
qed

text \<open>Updating the first of two posts: the second post and the like are untouched.\<close>

theorem update_post_frame_witness:
  "update_post ''p1'' [''username'' \<mapsto> JStr ''z'', ''content'' \<mapsto> JStr ''new''] ''t9''
     \<lparr>posts = [\<lparr>post_id = ''p1'', post_username = ''a'', post_content = ''hi'',
                post_createdAt = ''t0'', post_updatedAt = ''t0'', post_likes = 1,
                post_comments = 0\<rparr>,
               \<lparr>post_id = ''p2'', post_username = ''b'', post_content = ''yo'',
                post_createdAt = ''t1'', post_updatedAt = ''t1'', post_likes = 0,
                post_comments = 0\<rparr>],
      comments = [], likes = [\<lparr>like_postId = ''p1'', like_username = ''b''\<rparr>]\<rparr> =
   (Inr \<lparr>post_id = ''p1'', post_username = ''z'', post_content = ''new'',
         post_createdAt = ''t0'', post_updatedAt = ''t9'', post_likes = 1,
         post_comments = 0\<rparr>,
    \<lparr>posts = [\<lparr>post_id = ''p1'', post_username = ''z'', post_content = ''new'',
                post_createdAt = ''t0'', post_updatedAt = ''t9'', post_likes = 1,
                post_comments = 0\<rparr>,
               \<lparr>post_id = ''p2'', post_username = ''b'', post_content = ''yo'',
                post_createdAt = ''t1'', post_updatedAt = ''t1'', post_likes = 0,
                post_comments = 0\<rparr>],
      comments = [], likes = [\<lparr>like_postId = ''p1'', like_username = ''b''\<rparr>]\<rparr>)"
proof -
  let ?p = "\<lparr>post_id = ''p1'', post_username = ''a'', post_content = ''hi'',
                post_createdAt = ''t0'', post_updatedAt = ''t0'', post_likes = 1,
                post_comments = 0\<rparr>"
  let ?q = "\<lparr>post_id = ''p2'', post_username = ''b'', post_content = ''yo'',
                post_createdAt = ''t1'', post_updatedAt = ''t1'', post_likes = 0,
                post_comments = 0\<rparr>"
  let ?s = "\<lparr>posts = [?p, ?q], comments = [],
      likes = [\<lparr>like_postId = ''p1'', like_username = ''b''\<rparr>]\<rparr>"
  let ?b = "[''username'' \<mapsto> JStr ''z'', ''content'' \<mapsto> JStr ''new'']"
  have h1: "get_post ''p1'' ?s = Inr ?p" by (simp add: get_post_def select_post_def)
  have h2: "truthy (get ?b ''username'')" by (simp add: get_def)
  have h3: "truthy (get ?b ''content'')" by (simp add: get_def)
  have h4: "sql_text (get ?b ''username'') = Some ''z''" by (simp add: get_def)
  have h5: "sql_text (get ?b ''content'') = Some ''new''" by (simp add: get_def)
  from update_post_frame [OF h1 h2 h3 h4 h5, of "''t9''"]
  have "fst (update_post ''p1'' ?b ''t9'' ?s) =
      Inr (?p\<lparr>post_username := ''z'', post_content := ''new'', post_updatedAt := ''t9''\<rparr>)"
    and "posts (snd (update_post ''p1'' ?b ''t9'' ?s)) =
      map (\<lambda>q. if post_id q = ''p1''
                then q\<lparr>post_username := ''z'', post_content := ''new'', post_updatedAt := ''t9''\<rparr>
                else q) (posts ?s)"
    and "comments (snd (update_post ''p1'' ?b ''t9'' ?s)) = comments ?s"
    and "likes (snd (update_post ''p1'' ?b ''t9'' ?s)) = likes ?s"
    by blast+
  then show ?thesis
    by (cases "update_post ''p1'' ?b ''t9'' ?s", cases "snd (update_post ''p1'' ?b ''t9'' ?s)")
      simp
qed

section \<open>Comments\<close>

text \<open>
  C8. With both fields truthy and a \<open>pid\<close> that is the id of no stored post,
  \<^verbatim>\<open>create_comment\<close> answers \<open>NotFound\<close> and returns the store it was given: no comment
  row is inserted and no counter is changed. With a falsy or missing field it answers
  \<open>InvalidInput\<close> and returns the store it was given. And whenever its answer is
  \<open>InvalidInput\<close>, indeed whenever it is an error at all, the store is unchanged.
\<close>

theorem create_comment_errors:
  "(truthy (get b ''username'') \<and> truthy (get b ''content'') \<and>
    pid \<notin> set (map post_id (posts s))
      \<longrightarrow> create_comment pid b uuid now s = (Inl NotFound, s)) \<and>
   (\<not> truthy (get b ''username'') \<or> \<not> truthy (get b ''content'')
      \<longrightarrow> create_comment pid b uuid now s = (Inl InvalidInput, s)) \<and>
   (fst (create_comment pid b uuid now s) = Inl InvalidInput
      \<longrightarrow> snd (create_comment pid b uuid now s) = s) \<and>
   (\<forall>e. fst (create_comment pid b uuid now s) = Inl e
      \<longrightarrow> snd (create_comment pid b uuid now s) = s)"
proof (intro conjI)
  show "truthy (get b ''username'') \<and> truthy (get b ''content'') \<and>
    pid \<notin> set (map post_id (posts s))
      \<longrightarrow> create_comment pid b uuid now s = (Inl NotFound, s)"
  proof
    assume h: "truthy (get b ''username'') \<and> truthy (get b ''content'') \<and>
      pid \<notin> set (map post_id (posts s))"
    then have "select_post s pid = None"
      by (simp add: select_post_None)
    with h show "create_comment pid b uuid now s = (Inl NotFound, s)"
      by (simp add: create_comment_def Let_def)
  qed
next
  show "\<not> truthy (get b ''username'') \<or> \<not> truthy (get b ''content'')
      \<longrightarrow> create_comment pid b uuid now s = (Inl InvalidInput, s)"
    by (auto simp: create_comment_def)
next
  have any: "fst (create_comment pid b uuid now s) = Inl e
      \<Longrightarrow> snd (create_comment pid b uuid now s) = s" for e
    by (auto simp: create_comment_def Let_def split: if_splits option.splits)
  show "fst (create_comment pid b uuid now s) = Inl InvalidInput
      \<longrightarrow> snd (create_comment pid b uuid now s) = s"
    using any by blast
  show "\<forall>e. fst (create_comment pid b uuid now s) = Inl e
      \<longrightarrow> snd (create_comment pid b uuid now s) = s"
    using any by blast
qed

text \<open>A comment for a post that is not stored, and a comment with an empty user name.\<close>

theorem create_comment_errors_witness:
  "create_comment ''nope'' [''username'' \<mapsto> JStr ''c'', ''content'' \<mapsto> JStr ''x''] ''c1'' ''t1''
     \<lparr>posts = [\<lparr>post_id = ''p1'', post_username = ''a'', post_content = ''hi'',
                post_createdAt = ''t0'', post_updatedAt = ''t0'', post_likes = 0,
                post_comments = 0\<rparr>], comments = [], likes = []\<rparr> =
   (Inl NotFound,
     \<lparr>posts = [\<lparr>post_id = ''p1'', post_username = ''a'', post_content = ''hi'',
                post_createdAt = ''t0'', post_updatedAt = ''t0'', post_likes = 0,
                post_comments = 0\<rparr>], comments = [], likes = []\<rparr>) \<and>
   create_comment ''p1'' [''username'' \<mapsto> JStr '''', ''content'' \<mapsto> JStr ''x''] ''c1'' ''t1''
     \<lparr>posts = [\<lparr>post_id = ''p1'', post_username = ''a'', post_content = ''hi'',
                post_createdAt = ''t0'', post_updatedAt = ''t0'', post_likes = 0,
                post_comments = 0\<rparr>], comments = [], likes = []\<rparr> =
   (Inl InvalidInput,
     \<lparr>posts = [\<lparr>post_id = ''p1'', post_username = ''a'', post_content = ''hi'',
                post_createdAt = ''t0'', post_updatedAt = ''t0'', post_likes = 0,
                post_comments = 0\<rparr>], comments = [], likes = []\<rparr>)"
proof -
  let ?s = "\<lparr>posts = [\<lparr>post_id = ''p1'', post_username = ''a'', post_content = ''hi'',
                post_createdAt = ''t0'', post_updatedAt = ''t0'', post_likes = 0,
                post_comments = 0\<rparr>], comments = [], likes = []\<rparr>"
  let ?b = "[''username'' \<mapsto> JStr ''c'', ''content'' \<mapsto> JStr ''x'']"
  let ?e = "[''username'' \<mapsto> JStr '''', ''content'' \<mapsto> JStr ''x'']"
  have h: "truthy (get ?b ''username'') \<and> truthy (get ?b ''content'') \<and>
    ''nope'' \<notin> set (map post_id (posts ?s))"
    by (simp add: get_def)
  have k: "\<not> truthy (get ?e ''username'') \<or> \<not> truthy (get ?e ''content'')"
    by (simp add: get_def)
  from create_comment_errors [where b = ?b and pid = "''nope''" and s = ?s
      and uuid = "''c1''" and now = "''t1''"] h
  have a: "create_comment ''nope'' ?b ''c1'' ''t1'' ?s = (Inl NotFound, ?s)"
    by blast
  from create_comment_errors [where b = ?e and pid = "''p1''" and s = ?s
      and uuid = "''c1''" and now = "''t1''"] k
  have c: "create_comment ''p1'' ?e ''c1'' ''t1'' ?s = (Inl InvalidInput, ?s)"
    by blast
  from a c show ?thesis by simp
qed

lemma select_comment_None:
  "select_comment s cid pid = None \<longleftrightarrow>
     (\<forall>c \<in> set (comments s). \<not> (comment_id c = cid \<and> comment_postId c = pid))"
  by (auto simp: select_comment_def find_None_iff)

text \<open>
  C9. When no comment row has both the id \<open>cid\<close> and the \<^verbatim>\<open>postId\<close> \<open>pid\<close>,
  \<^verbatim>\<open>delete_comment\<close> answers \<open>NotFound\<close> and returns the store unchanged. When such a
  row exists it answers 204; the comments it returns are the comments without the rows
  of both keys, the likes are unchanged, and a post is changed only if its id is \<open>pid\<close>
  and its \<^verbatim>\<open>comments\<close> counter is positive, and then only by decrementing that counter.
  So the post \<open>pid\<close> read back has its counter one smaller when it was positive and is
  the very same post when the counter was 0: the call succeeds and the counter is not
  negative.
\<close>

theorem delete_comment_spec:
  "((\<forall>c \<in> set (comments s). \<not> (comment_id c = cid \<and> comment_postId c = pid))
      \<longrightarrow> delete_comment pid cid s = (Inl NotFound, s)) \<and>
   ((\<exists>c \<in> set (comments s). comment_id c = cid \<and> comment_postId c = pid)
      \<longrightarrow> fst (delete_comment pid cid s) = Inr 204 \<and>
          comments (snd (delete_comment pid cid s)) =
            filter (\<lambda>c. \<not> (comment_id c = cid \<and> comment_postId c = pid)) (comments s) \<and>
          likes (snd (delete_comment pid cid s)) = likes s \<and>
          posts (snd (delete_comment pid cid s)) =
            map (\<lambda>p. if post_id p = pid \<and> 0 < post_comments p
                      then p\<lparr>post_comments := post_comments p - 1\<rparr> else p) (posts s) \<and>
          (\<forall>p. get_post pid s = Inr p \<longrightarrow>
             get_post pid (snd (delete_comment pid cid s)) =
               Inr (if 0 < post_comments p then p\<lparr>post_comments := post_comments p - 1\<rparr>
                    else p)))"
proof (cases "select_comment s cid pid")
  case None
  then show ?thesis
    using select_comment_None [of s cid pid] by (simp add: delete_comment_def)
next
  case (Some r)
  let ?g = "\<lambda>p. if post_id p = pid \<and> 0 < post_comments p
      then p\<lparr>post_comments := post_comments p - 1\<rparr> else p"
  let ?s' = "decr_comments pid (delete_comment_row cid pid s)"
  from Some have ex: "\<exists>c \<in> set (comments s). comment_id c = cid \<and> comment_postId c = pid"
    using select_comment_None [of s cid pid] by auto
  have r: "delete_comment pid cid s = (Inr 204, ?s')"
    using Some by (simp add: delete_comment_def)
  have tables: "posts ?s' = map ?g (posts s)"
    "comments ?s' = filter (\<lambda>c. \<not> (comment_id c = cid \<and> comment_postId c = pid)) (comments s)"
    "likes ?s' = likes s"
    by (simp_all add: decr_comments_def delete_comment_row_def)
  have gp: "get_post pid ?s' =
      Inr (if 0 < post_comments p then p\<lparr>post_comments := post_comments p - 1\<rparr> else p)"
    if "get_post pid s = Inr p" for p
  proof -
    from that have f: "select_post s pid = Some p"
      by (simp add: get_post_def split: option.splits)
    then have id: "post_id p = pid" using select_post_Some by auto
    have "select_post ?s' pid = map_option ?g (select_post s pid)"
      by (simp add: select_post_def tables find_map_key)
    with f id show ?thesis by (simp add: get_post_def)
  qed
  from ex r tables gp show ?thesis by simp
qed

text \<open>
  A post whose counter is 0 although it has a comment: deleting the comment answers
  204 and leaves the counter 0. Deleting a comment that is not stored is \<open>NotFound\<close>.
\<close>

theorem delete_comment_spec_witness:
  "delete_comment ''p1'' ''c1''
     \<lparr>posts = [\<lparr>post_id = ''p1'', post_username = ''a'', post_content = ''hi'',
                post_createdAt = ''t0'', post_updatedAt = ''t0'', post_likes = 0,
                post_comments = 0\<rparr>],
      comments = [\<lparr>comment_id = ''c1'', comment_postId = ''p1'', comment_username = ''c'',
                   comment_content = ''x'', comment_createdAt = ''t1'',
                   comment_updatedAt = ''t1''\<rparr>],
      likes = []\<rparr> =
   (Inr 204,
     \<lparr>posts = [\<lparr>post_id = ''p1'', post_username = ''a'', post_content = ''hi'',
                post_createdAt = ''t0'', post_updatedAt = ''t0'', post_likes = 0,
                post_comments = 0\<rparr>],
      comments = [], likes = []\<rparr>) \<and>
   delete_comment ''p1'' ''c2''
     \<lparr>posts = [\<lparr>post_id = ''p1'', post_username = ''a'', post_content = ''hi'',
                post_createdAt = ''t0'', post_updatedAt = ''t0'', post_likes = 0,
                post_comments = 0\<rparr>],
      comments = [\<lparr>comment_id = ''c1'', comment_postId = ''p1'', comment_username = ''c'',
                   comment_content = ''x'', comment_createdAt = ''t1'',
                   comment_updatedAt = ''t1''\<rparr>],
      likes = []\<rparr> =
   (Inl NotFound,
     \<lparr>posts = [\<lparr>post_id = ''p1'', post_username = ''a'', post_content = ''hi'',
                post_createdAt = ''t0'', post_updatedAt = ''t0'', post_likes = 0,
                post_comments = 0\<rparr>],
      comments = [\<lparr>comment_id = ''c1'', comment_postId = ''p1'', comment_username = ''c'',
                   comment_content = ''x'', comment_createdAt = ''t1'',
                   comment_updatedAt = ''t1''\<rparr>],
      likes = []\<rparr>)"
proof -
  let ?s = "\<lparr>posts = [\<lparr>post_id = ''p1'', post_username = ''a'', post_content = ''hi'',
                post_createdAt = ''t0'', post_updatedAt = ''t0'', post_likes = 0,
                post_comments = 0\<rparr>],
      comments = [\<lparr>comment_id = ''c1'', comment_postId = ''p1'', comment_username = ''c'',
                   comment_content = ''x'', comment_createdAt = ''t1'',
                   comment_updatedAt = ''t1''\<rparr>],
      likes = []\<rparr>"
  have h: "\<exists>c \<in> set (comments ?s). comment_id c = ''c1'' \<and> comment_postId c = ''p1''"
    by simp
  have n: "\<forall>c \<in> set (comments ?s). \<not> (comment_id c = ''c2'' \<and> comment_postId c = ''p1'')"
    by simp
  from delete_comment_spec [where s = ?s and cid = "''c1''" and pid = "''p1''"] h
  have t: "fst (delete_comment ''p1'' ''c1'' ?s) = Inr 204"
    "comments (snd (delete_comment ''p1'' ''c1'' ?s)) =
       filter (\<lambda>c. \<not> (comment_id c = ''c1'' \<and> comment_postId c = ''p1'')) (comments ?s)"
    "likes (snd (delete_comment ''p1'' ''c1'' ?s)) = likes ?s"
    "posts (snd (delete_comment ''p1'' ''c1'' ?s)) =
       map (\<lambda>p. if post_id p = ''p1'' \<and> 0 < post_comments p
                 then p\<lparr>post_comments := post_comments p - 1\<rparr> else p) (posts ?s)"
    by blast+
  from delete_comment_spec [where s = ?s and cid = "''c2''" and pid = "''p1''"] n
  have d: "delete_comment ''p1'' ''c2'' ?s = (Inl NotFound, ?s)"
    by blast
  from t d show ?thesis
    by (cases "delete_comment ''p1'' ''c1'' ?s", cases "snd (delete_comment ''p1'' ''c1'' ?s)")
      simp
qed

section \<open>Validation\<close>

lemma create_post_invalid:
  "fst (create_post b uuid now s) = Inl InvalidInput \<longleftrightarrow>
     \<not> truthy (get b ''username'') \<or> \<not> truthy (get b ''content'')"
  by (auto simp: create_post_def Let_def split: option.splits)

lemma update_post_invalid:
  "fst (update_post pid b now s) = Inl InvalidInput \<longleftrightarrow>
     \<not> truthy (get b ''username'') \<or> \<not> truthy (get b ''content'')"
  by (auto simp: update_post_def Let_def split: option.splits)

lemma create_comment_invalid:
  "fst (create_comment pid b uuid now s) = Inl InvalidInput \<longleftrightarrow>
     \<not> truthy (get b ''username'') \<or> \<not> truthy (get b ''content'')"
  by (auto simp: create_comment_def Let_def split: option.splits)

lemma update_comment_invalid:
  "fst (update_comment pid cid b now s) = Inl InvalidInput \<longleftrightarrow>
     \<not> truthy (get b ''username'') \<or> \<not> truthy (get b ''content'')"
  by (auto simp: update_comment_def Let_def split: option.splits)

lemma like_post_invalid:
  "fst (like_post pid b s) = Inl InvalidInput \<longleftrightarrow> \<not> truthy (get b ''username'')"
  by (auto simp: like_post_def split: option.splits)

lemma unlike_post_invalid:
  "fst (unlike_post pid b s) = Inl InvalidInput \<longleftrightarrow> \<not> truthy (get b ''username'')"
  by (auto simp: unlike_post_def split: option.splits)

text \<open>
  C10. Each of the six validating handlers answers \<open>InvalidInput\<close> exactly when a field
  it requires (\<^verbatim>\<open>username\<close> and \<^verbatim>\<open>content\<close>; \<^verbatim>\<open>username\<close> alone for the two like handlers)
  is falsy in Python's sense. A missing key, \<^verbatim>\<open>null\<close> and the empty string are falsy;
  every non-empty string is truthy, whitespace included. And \<^verbatim>\<open>create_post\<close> with the
  user name of one blank, a non-empty content and an unused identifier returns the
  post and stores that user name as it came.
\<close>

theorem validation_truthy:
  "(fst (create_post b uuid now s) = Inl InvalidInput \<longleftrightarrow>
      \<not> truthy (get b ''username'') \<or> \<not> truthy (get b ''content'')) \<and>
   (fst (update_post pid b now s) = Inl InvalidInput \<longleftrightarrow>
      \<not> truthy (get b ''username'') \<or> \<not> truthy (get b ''content'')) \<and>
   (fst (create_comment pid b uuid now s) = Inl InvalidInput \<longleftrightarrow>
      \<not> truthy (get b ''username'') \<or> \<not> truthy (get b ''content'')) \<and>
   (fst (update_comment pid cid b now s) = Inl InvalidInput \<longleftrightarrow>
      \<not> truthy (get b ''username'') \<or> \<not> truthy (get b ''content'')) \<and>
   (fst (like_post pid b s) = Inl InvalidInput \<longleftrightarrow> \<not> truthy (get b ''username'')) \<and>
   (fst (unlike_post pid b s) = Inl InvalidInput \<longleftrightarrow> \<not> truthy (get b ''username'')) \<and>
   (b k = None \<or> b k = Some JNull \<or> b k = Some (JStr '''') \<longrightarrow> \<not> truthy (get b k)) \<and>
   (\<forall>str. b k = Some (JStr str) \<and> str \<noteq> '''' \<longrightarrow> truthy (get b k)) \<and>
   (c \<noteq> '''' \<and> uuid \<notin> set (map post_id (posts s)) \<longrightarrow>
      create_post [''username'' \<mapsto> JStr '' '', ''content'' \<mapsto> JStr c] uuid now s =
        (Inr \<lparr>post_id = uuid, post_username = JStr '' '', post_content = JStr c,
              post_createdAt = now, post_updatedAt = now, post_likes = 0,
              post_comments = 0\<rparr>,
         s\<lparr>posts := posts s @
              [\<lparr>post_id = uuid, post_username = '' '', post_content = c,
                post_createdAt = now, post_updatedAt = now, post_likes = 0,
                post_comments = 0\<rparr>]\<rparr>))"
proof -
  have k1: "b k = None \<or> b k = Some JNull \<or> b k = Some (JStr '''') \<longrightarrow> \<not> truthy (get b k)"
    by (auto simp: get_def)
  have k2: "\<forall>str. b k = Some (JStr str) \<and> str \<noteq> '''' \<longrightarrow> truthy (get b k)"
    by (simp add: get_def)
  have k3: "c \<noteq> '''' \<and> uuid \<notin> set (map post_id (posts s)) \<longrightarrow>
      create_post [''username'' \<mapsto> JStr '' '', ''content'' \<mapsto> JStr c] uuid now s =
        (Inr \<lparr>post_id = uuid, post_username = JStr '' '', post_content = JStr c,
              post_createdAt = now, post_updatedAt = now, post_likes = 0,
              post_comments = 0\<rparr>,
         s\<lparr>posts := posts s @
              [\<lparr>post_id = uuid, post_username = '' '', post_content = c,
                post_createdAt = now, post_updatedAt = now, post_likes = 0,
                post_comments = 0\<rparr>]\<rparr>)"
    by (simp add: create_post_def Let_def insert_post_def get_def)
  from create_post_invalid [of b uuid now s] update_post_invalid [of pid b now s]
    create_comment_invalid [of pid b uuid now s] update_comment_invalid [of pid cid b now s]
    like_post_invalid [of pid b s] unlike_post_invalid [of pid b s] k1 k2 k3
  show ?thesis by blast
qed

text \<open>
  A user name of one blank is accepted and stored; \<^verbatim>\<open>null\<close>, the empty string and a
  missing key are refused.
\<close>

theorem validation_truthy_witness:
  "fst (create_post [''username'' \<mapsto> JStr '' '', ''content'' \<mapsto> JStr ''hi''] ''p1'' ''t0'' init_db)
     \<noteq> Inl InvalidInput \<and>
   fst (like_post ''p1'' [''username'' \<mapsto> JNull] init_db) = Inl InvalidInput \<and>
   fst (like_post ''p1'' [''username'' \<mapsto> JStr ''''] init_db) = Inl InvalidInput \<and>
   fst (like_post ''p1'' Map.empty init_db) = Inl InvalidInput \<and>
   create_post [''username'' \<mapsto> JStr '' '', ''content'' \<mapsto> JStr ''hi''] ''p1'' ''t0'' init_db =
     (Inr \<lparr>post_id = ''p1'', post_username = JStr '' '', post_content = JStr ''hi'',
           post_createdAt = ''t0'', post_updatedAt = ''t0'', post_likes = 0,
           post_comments = 0\<rparr>,
      \<lparr>posts = [\<lparr>post_id = ''p1'', post_username = '' '', post_content = ''hi'',
                 post_createdAt = ''t0'', post_updatedAt = ''t0'', post_likes = 0,
                 post_comments = 0\<rparr>], comments = [], likes = []\<rparr>)"
proof -
  let ?w = "[''username'' \<mapsto> JStr '' '', ''content'' \<mapsto> JStr ''hi'']"
  have w: "\<not> (\<not> truthy (get ?w ''username'') \<or> \<not> truthy (get ?w ''content''))"
    by (simp add: get_def)
  have n: "\<not> truthy (get [''username'' \<mapsto> JNull] ''username'')"
    "\<not> truthy (get [''username'' \<mapsto> JStr ''''] ''username'')"
    "\<not> truthy (get Map.empty ''username'')"
    by (simp_all add: get_def)
  have f: "''hi'' \<noteq> '''' \<and> ''p1'' \<notin> set (map post_id (posts init_db))"
    by (simp add: init_db_def)
  from validation_truthy [where b = ?w and uuid = "''p1''" and now = "''t0''" and s = init_db] w
  have a: "fst (create_post ?w ''p1'' ''t0'' init_db) \<noteq> Inl InvalidInput"
    by blast
  from validation_truthy [where b = "[''username'' \<mapsto> JNull]" and pid = "''p1''" and s = init_db]
    n(1)
  have b: "fst (like_post ''p1'' [''username'' \<mapsto> JNull] init_db) = Inl InvalidInput"
    by blast
  from validation_truthy [where b = "[''username'' \<mapsto> JStr '''']" and pid = "''p1''"
      and s = init_db] n(2)
  have c: "fst (like_post ''p1'' [''username'' \<mapsto> JStr ''''] init_db) = Inl InvalidInput"
    by blast
  from validation_truthy [where b = Map.empty and pid = "''p1''" and s = init_db] n(3)
  have d: "fst (like_post ''p1'' Map.empty init_db) = Inl InvalidInput"
    by blast
  from validation_truthy [where c = "''hi''" and uuid = "''p1''" and now = "''t0''"
      and s = init_db] f
  have e: "create_post ?w ''p1'' ''t0'' init_db =
        (Inr \<lparr>post_id = ''p1'', post_username = JStr '' '', post_content = JStr ''hi'',
              post_createdAt = ''t0'', post_updatedAt = ''t0'', post_likes = 0,
              post_comments = 0\<rparr>,
         init_db\<lparr>posts := posts init_db @
              [\<lparr>post_id = ''p1'', post_username = '' '', post_content = ''hi'',
                post_createdAt = ''t0'', post_updatedAt = ''t0'', post_likes = 0,
                post_comments = 0\<rparr>]\<rparr>)"
    by blast
  from a b c d e show ?thesis by (simp add: init_db_def)
qed

end
